theory Spec2Isabelle
  imports Main
begin

section \<open>JavaScript values used by the session engine\<close>

text \<open>
  The quiz server keeps every room as one JSON object in a key-value store, and reads it
  back with \<open>JSON.parse\<close>.  A JavaScript object is modelled as the list of its own
  properties in the order \<open>Object.entries\<close> and \<open>JSON.stringify\<close> enumerate them: keys
  that are array indices first, in ascending numeric order, then the other keys in
  insertion order.  Keys of one object are distinct.

  A parsed object inherits the properties of \<open>Object.prototype\<close>.  A lookup \<open>ob[k]\<close> finds
  the own property of that name; failing that, for the twelve inherited names it finds the
  inherited value (a function, or the prototype object itself for \<open>__proto__\<close>); failing
  that it gives \<open>undefined\<close>.  No assignment \<open>ob['__proto__'] = v\<close> makes an own property:
  it is taken by the inherited setter, which leaves the own properties as they are.  So
  the list of an object never has the key \<open>__proto__\<close>, and the lookup of that name always
  finds the inherited value.
\<close>

type_synonym 'v obj = "(string \<times> 'v) list"

datatype 'v lookup = Undefined | Own 'v | Inherited

definition inherited_names :: "string list" where
  "inherited_names =
     [''constructor'', ''__defineGetter__'', ''__defineSetter__'', ''hasOwnProperty'',
      ''__lookupGetter__'', ''__lookupSetter__'', ''isPrototypeOf'', ''propertyIsEnumerable'',
      ''toString'', ''valueOf'', ''__proto__'', ''toLocaleString'']"

text \<open>The own property of a name, as it is written to the store.\<close>

definition obj_own :: "'v obj \<Rightarrow> string \<Rightarrow> 'v option" where
  "obj_own ob k = (if k = ''__proto__'' then None else map_of ob k)"

text \<open>The lookup \<open>ob[k]\<close>.\<close>

definition obj_get :: "'v obj \<Rightarrow> string \<Rightarrow> 'v lookup" where
  "obj_get ob k =
     (case obj_own ob k of
        Some v \<Rightarrow> Own v
      | None \<Rightarrow> if k \<in> set inherited_names then Inherited else Undefined)"

definition is_digit :: "char \<Rightarrow> bool" where
  "is_digit c = (48 \<le> (of_char c :: nat) \<and> (of_char c :: nat) \<le> 57)"

definition index_val :: "string \<Rightarrow> int" where
  "index_val k = foldl (\<lambda>n c. 10 * n + ((of_char c :: int) - 48)) 0 k"

definition is_array_index :: "string \<Rightarrow> bool" where
  "is_array_index k =
     (k \<noteq> [] \<and> list_all is_digit k \<and> (k = ''0'' \<or> hd k \<noteq> CHR ''0'') \<and> index_val k < 4294967295)"

fun replace_key :: "'v obj \<Rightarrow> string \<Rightarrow> 'v \<Rightarrow> 'v obj" where
  "replace_key [] k v = []"
| "replace_key ((k', v') # ob) k v =
     (if k' = k then (k, v) # ob else (k', v') # replace_key ob k v)"

fun insert_index :: "'v obj \<Rightarrow> string \<Rightarrow> 'v \<Rightarrow> 'v obj" where
  "insert_index [] k v = [(k, v)]"
| "insert_index ((k', v') # ob) k v =
     (if is_array_index k' \<and> index_val k' < index_val k
      then (k', v') # insert_index ob k v
      else (k, v) # (k', v') # ob)"

text \<open>The assignment \<open>ob[k] = v\<close>: an existing own property keeps its place, a new one is
  added; the name \<open>__proto__\<close> gets none.\<close>

definition obj_set :: "'v obj \<Rightarrow> string \<Rightarrow> 'v \<Rightarrow> 'v obj" where
  "obj_set ob k v =
     (if k = ''__proto__'' then ob
      else if k \<in> set (map fst ob) then replace_key ob k v
      else if is_array_index k then insert_index ob k v
      else ob @ [(k, v)])"

text \<open>
  Truthiness of what \<open>room.currentQuestionAnswers[playerName]\<close> finds: \<open>undefined\<close> and the
  number 0 are falsy; every other number, and an inherited function or object, is truthy.
\<close>

definition truthy_num :: "int lookup \<Rightarrow> bool" where
  "truthy_num v = (case v of Undefined \<Rightarrow> False | Own n \<Rightarrow> n \<noteq> 0 | Inherited \<Rightarrow> True)"

text \<open>A stored number, or 0 when there is none.\<close>

definition or0 :: "int option \<Rightarrow> int" where
  "or0 v = (case v of None \<Rightarrow> 0 | Some n \<Rightarrow> n)"

text \<open>
  JSON values, as \<open>JSON.parse\<close> gives them.  Numbers are the integers.  The generator's
  questions are stored as they are parsed, so a question is any JSON value.
\<close>

datatype json =
    JNull
  | JBool bool
  | JNum int
  | JStr string
  | JArr "json list"
  | JObj "(string \<times> json) list"

text \<open>
  The property \<open>q[k]\<close> of a value that is not \<open>null\<close>, for the four names the handlers read
  (\<open>question\<close>, \<open>options\<close>, \<open>correct\<close>, \<open>explanation\<close>): an object has it or not; a number,
  a string, a boolean or an array has none of them.  \<open>None\<close> is \<open>undefined\<close>, and a property
  that is \<open>undefined\<close> is left out when the object holding it is written as JSON.
\<close>

fun field :: "json \<Rightarrow> string \<Rightarrow> json option" where
  "field (JObj kvs) k = map_of kvs k"
| "field _ k = None"

section \<open>Data model\<close>

text \<open>The entry pushed on \<open>room.playerAnswers[playerName]\<close> by submit-answer.\<close>

record answer_record =
  questionIndex :: nat
  a_question :: "json option"
  playerAnswer :: int
  correctAnswer :: "json option"
  a_options :: "json option"
  a_explanation :: "json option"
  isCorrect :: bool

record player =
  name :: string
  joinedAt :: int

datatype status = St_waiting | St_playing | St_finished

datatype phase = Ph_waiting | Ph_answering | Ph_revealing

text \<open>
  The room object of the store-backed server.  \<open>room_name\<close> is the property \<open>name\<close>.
  Times are \<open>Date.now()\<close> milliseconds.  \<open>questionStartTime\<close> and \<open>revealStartTime\<close>
  are absent from a freshly created room; start-game is the only writer of status
  \<open>playing\<close> and sets \<open>questionStartTime\<close>, and phase \<open>revealing\<close> is only entered by
  the assignment that also sets \<open>revealStartTime\<close>, so the handlers below, which read
  them under exactly these guards, always find numbers.  \<open>currentQuestionAnswers\<close> may
  be \<open>undefined\<close> (\<open>None\<close>): submit-answer tests for it.  A handler reads the clock
  once: the argument \<open>now\<close> stands for each \<open>Date.now()\<close> of one request.
\<close>

record room =
  room_name :: string
  isPublic :: bool
  players :: "player list"
  questions :: "json list"
  currentQuestion :: nat
  scores :: "int obj"
  playerAnswers :: "answer_record list obj"
  status :: status
  phase :: phase
  courseContent :: string
  fileNames :: "string list"
  createdAt :: int
  lastUpdate :: int
  questionStartTime :: int
  revealStartTime :: int
  currentQuestionAnswers :: "int obj option"

text \<open>A saved quiz of the archive.\<close>

record quiz =
  q_name :: string
  q_questions :: "json list"
  q_fileNames :: "string list"
  q_createdAt :: int

text \<open>
  The store: \<open>getRoom\<close> and \<open>setRoom\<close> read and write the whole room under key
  \<open>room:<code>\<close>; \<open>getSavedQuiz\<close> and \<open>saveQuiz\<close> do the same under \<open>quiz:<id>\<close>.
\<close>

type_synonym store = "string \<Rightarrow> room option"

type_synonym archive = "string \<Rightarrow> quiz option"

definition getRoom :: "store \<Rightarrow> string \<Rightarrow> room option" where
  "getRoom st roomCode = st roomCode"

definition setRoom :: "store \<Rightarrow> string \<Rightarrow> room \<Rightarrow> store" where
  "setRoom st roomCode room = st(roomCode \<mapsto> room)"

definition getSavedQuiz :: "archive \<Rightarrow> string \<Rightarrow> quiz option" where
  "getSavedQuiz ar quizId = ar quizId"

definition saveQuiz :: "archive \<Rightarrow> string \<Rightarrow> quiz \<Rightarrow> archive" where
  "saveQuiz ar quizId quizData = ar(quizId \<mapsto> quizData)"

text \<open>
  What a handler answers when it does not answer with its payload: 404 room or quiz not
  found, 400 cannot start, 400 cannot submit, 500 failed to generate.  \<open>TypeError\<close> is
  the exception of reading a property of \<open>undefined\<close> or \<open>null\<close>, or of calling \<open>push\<close> on
  a value that has none, outside a \<open>try\<close> block.  \<open>StringScore\<close> marks the one
  branch whose result the room type cannot hold: the sum of an inherited function and the
  points, which is a string.
\<close>

datatype error = NotFound | CannotStart | CannotSubmit | FailedToGenerate | TypeError | StringScore

definition QUESTION_TIME :: int where
  "QUESTION_TIME = 30"

definition REVEAL_TIME :: int where
  "REVEAL_TIME = 5"

text \<open>\<open>Math.floor((now - start) / 1000)\<close>; \<open>div\<close> on \<open>int\<close> rounds down as \<open>Math.floor\<close> does.\<close>

definition elapsed :: "int \<Rightarrow> int \<Rightarrow> int" where
  "elapsed now start = (now - start) div 1000"

section \<open>create-room\<close>

text \<open>\<open>toUpperCase\<close> on the letters a to z; every other character of a base-36 text
  is a digit or the point and stays as it is.\<close>

definition toUpperCase_char :: "char \<Rightarrow> char" where
  "toUpperCase_char c =
     (case map_of (zip ''abcdefghijklmnopqrstuvwxyz'' ''ABCDEFGHIJKLMNOPQRSTUVWXYZ'') c of
        Some u \<Rightarrow> u
      | None \<Rightarrow> c)"

definition toUpperCase :: "string \<Rightarrow> string" where
  "toUpperCase s = map toUpperCase_char s"

text \<open>\<open>s.substring(a, b)\<close> for \<open>a \<le> b\<close>; both ends are clamped to the length of \<open>s\<close>.\<close>

definition substring :: "string \<Rightarrow> nat \<Rightarrow> nat \<Rightarrow> string" where
  "substring s a b = take (b - a) (drop a s)"

text \<open>
  \<open>Math.random().toString(36).substring(2, 8).toUpperCase()\<close>.  The argument \<open>rnd36\<close>
  is the text \<open>Math.random().toString(36)\<close> of the random draw: \<open>0\<close> for the draw 0,
  otherwise \<open>0.\<close> followed by as many base-36 digits as the draw needs.
\<close>

definition makeRoomCode :: "string \<Rightarrow> string" where
  "makeRoomCode rnd36 = toUpperCase (substring rnd36 2 8)"

text \<open>The room object of create-room.  It has no \<open>questionStartTime\<close>, \<open>revealStartTime\<close>
  or \<open>currentQuestionAnswers\<close>; the two times are 0 here and are written before they are
  first read.\<close>

definition new_room :: "string option \<Rightarrow> bool option \<Rightarrow> int \<Rightarrow> room" where
  "new_room roomName isPublicArg now =
     \<lparr> room_name = (case roomName of None \<Rightarrow> ''Quiz Room'' | Some n \<Rightarrow> if n = [] then ''Quiz Room'' else n),
       isPublic = (isPublicArg \<noteq> Some False),
       players = [],
       questions = [],
       currentQuestion = 0,
       scores = [],
       playerAnswers = [],
       status = St_waiting,
       phase = Ph_waiting,
       courseContent = [],
       fileNames = [],
       createdAt = now,
       lastUpdate = now,
       questionStartTime = 0,
       revealStartTime = 0,
       currentQuestionAnswers = None \<rparr>"

definition api_create_room :: "string \<Rightarrow> string option \<Rightarrow> bool option \<Rightarrow> int \<Rightarrow> store \<Rightarrow> string \<times> store" where
  "api_create_room rnd36 roomName isPublicArg now st =
     (let roomCode = makeRoomCode rnd36
      in (roomCode, setRoom st roomCode (new_room roomName isPublicArg now)))"

section \<open>join-room\<close>

text \<open>
  The three guarded initialisations shared by join-room and submit-answer: push the
  player unless a player of that name is found, set the score to 0 if the lookup is
  \<open>undefined\<close>, set the answer history to \<open>[]\<close> if the lookup is falsy (an array, and an
  inherited function or object, never is).
\<close>

definition register_player :: "int \<Rightarrow> string \<Rightarrow> room \<Rightarrow> room" where
  "register_player now playerName room =
     (let room1 = (if find (\<lambda>p. name p = playerName) (players room) = None
                   then room\<lparr>players := players room @ [\<lparr>name = playerName, joinedAt = now\<rparr>]\<rparr>
                   else room);
          room2 = (if obj_get (scores room1) playerName = Undefined
                   then room1\<lparr>scores := obj_set (scores room1) playerName 0\<rparr>
                   else room1);
          room3 = (if obj_get (playerAnswers room2) playerName = Undefined
                   then room2\<lparr>playerAnswers := obj_set (playerAnswers room2) playerName []\<rparr>
                   else room2)
      in room3)"

datatype join_response = Joined "player list" "int obj" status

definition api_join_room :: "int \<Rightarrow> string \<Rightarrow> string \<Rightarrow> store \<Rightarrow> (error + join_response) \<times> store" where
  "api_join_room now roomCode playerName st =
     (case getRoom st roomCode of
        None \<Rightarrow> (Inl NotFound, st)
      | Some room \<Rightarrow>
          (let room' = (register_player now playerName room)\<lparr>lastUpdate := now\<rparr>
           in (Inr (Joined (players room') (scores room') (status room')),
               setRoom st roomCode room')))"

section \<open>start-game\<close>

definition reset_player :: "player \<Rightarrow> room \<Rightarrow> room" where
  "reset_player p room =
     room\<lparr>scores := obj_set (scores room) (name p) 0,
          playerAnswers := obj_set (playerAnswers room) (name p) []\<rparr>"

definition api_start_game :: "int \<Rightarrow> string \<Rightarrow> store \<Rightarrow> (error + unit) \<times> store" where
  "api_start_game now roomCode st =
     (case getRoom st roomCode of
        None \<Rightarrow> (Inl CannotStart, st)
      | Some room \<Rightarrow>
          if length (questions room) = 0 then (Inl CannotStart, st)
          else
            (let room1 = room\<lparr>status := St_playing, phase := Ph_answering, currentQuestion := 0,
                              questionStartTime := now, currentQuestionAnswers := Some []\<rparr>;
                 room2 = fold reset_player (players room1) room1;
                 room3 = room2\<lparr>lastUpdate := now\<rparr>
             in (Inr (), setRoom st roomCode room3)))"

section \<open>get-current-view\<close>

text \<open>
  The JSON of a question view.  A field is \<open>None\<close> when the response has no such property:
  because the handler does not put it there, or because its value is \<open>undefined\<close>.
\<close>

record view =
  questionNum :: nat
  totalQuestions :: nat
  v_question :: "json option"
  v_options :: "json option"
  v_correctAnswer :: "json option"
  v_explanation :: "json option"
  v_timeLeft :: int
  v_timeLimit :: "int option"
  v_phase :: phase
  v_status :: status
  v_scores :: "int obj"

datatype question_response =
    Game_finished "int obj"
  | Not_playing status
  | Question_view view

text \<open>
  \<open>room.questions[room.currentQuestion]\<close>: \<open>undefined\<close> beyond the end of the list.  Reading
  a property of \<open>undefined\<close> or of \<open>null\<close> throws.
\<close>

definition current_question :: "room \<Rightarrow> error + json" where
  "current_question room =
     (if currentQuestion room < length (questions room) then
        (if questions room ! currentQuestion room = JNull then Inl TypeError
         else Inr (questions room ! currentQuestion room))
      else Inl TypeError)"

text \<open>The tail of the handler, from \<open>const question = ...\<close> to the response.\<close>

definition question_view :: "int \<Rightarrow> room \<Rightarrow> error + question_response" where
  "question_view now room =
     (case current_question room of
        Inl e \<Rightarrow> Inl e
      | Inr q \<Rightarrow>
          if phase room = Ph_answering then
            Inr (Question_view
              \<lparr> questionNum = currentQuestion room + 1,
                totalQuestions = length (questions room),
                v_question = field q ''question'',
                v_options = field q ''options'',
                v_correctAnswer = None,
                v_explanation = None,
                v_timeLeft = max 0 (QUESTION_TIME - elapsed now (questionStartTime room)),
                v_timeLimit = Some QUESTION_TIME,
                v_phase = Ph_answering,
                v_status = status room,
                v_scores = scores room \<rparr>)
          else
            Inr (Question_view
              \<lparr> questionNum = currentQuestion room + 1,
                totalQuestions = length (questions room),
                v_question = field q ''question'',
                v_options = field q ''options'',
                v_correctAnswer = field q ''correct'',
                v_explanation = field q ''explanation'',
                v_timeLeft = max 0 (REVEAL_TIME - elapsed now (revealStartTime room)),
                v_timeLimit = None,
                v_phase = Ph_revealing,
                v_status = status room,
                v_scores = scores room \<rparr>))"

text \<open>
  The handler of \<open>GET /api/question/:roomCode\<close>.  The two \<open>if\<close> statements that move
  the phase run one after the other on the same in-memory room; each write to the store
  happens where the source awaits \<open>setRoom\<close>.
\<close>

definition api_question :: "int \<Rightarrow> string \<Rightarrow> store \<Rightarrow> (error + question_response) \<times> store" where
  "api_question now roomCode st =
     (case getRoom st roomCode of
        None \<Rightarrow> (Inl NotFound, st)
      | Some room \<Rightarrow>
          if status room = St_finished then (Inr (Game_finished (scores room)), st)
          else if status room \<noteq> St_playing then (Inr (Not_playing (status room)), st)
          else
            (let timeElapsed = elapsed now (questionStartTime room);
                 expired = (phase room = Ph_answering \<and> timeElapsed \<ge> QUESTION_TIME);
                 room1 = (if expired then room\<lparr>phase := Ph_revealing, revealStartTime := now\<rparr> else room);
                 st1 = (if expired then setRoom st roomCode room1 else st)
             in if phase room1 = Ph_revealing \<and> elapsed now (revealStartTime room1) \<ge> REVEAL_TIME then
                  (let room2 = room1\<lparr>currentQuestion := currentQuestion room1 + 1,
                                     currentQuestionAnswers := Some []\<rparr>
                   in if currentQuestion room2 \<ge> length (questions room2) then
                        (let room3 = room2\<lparr>status := St_finished\<rparr>
                         in (Inr (Game_finished (scores room3)), setRoom st1 roomCode room3))
                      else
                        (let room3 = room2\<lparr>phase := Ph_answering, questionStartTime := now\<rparr>
                         in (question_view now room3, setRoom st1 roomCode room3)))
                else (question_view now room1, st1)))"

section \<open>submit-answer\<close>

datatype submit_response = AlreadyAnswered | Submitted int "int obj"

text \<open>\<open>Math.max(100, Math.floor(timeLeft * 50))\<close>; \<open>timeLeft\<close> is an integer, so the
  product is one and \<open>Math.floor\<close> leaves it as it is.\<close>

definition points :: "int \<Rightarrow> int" where
  "points timeLeft = max 100 (timeLeft * 50)"

text \<open>
  The handler of \<open>POST /api/submit-answer/:roomCode\<close> between its read of the room
  (\<open>await getRoom\<close>, the argument) and its write (\<open>await setRoom\<close>, the second
  component of the result, \<open>None\<close> when the handler returns without writing).  The
  chosen option \<open>answerIndex\<close> is an integer; \<open>answerIndex === question.correct\<close> holds
  when the question has the property \<open>correct\<close> and it is that number.

  The history found for the player is an array after the initialisations, unless the
  name is an inherited one with no own history: the value found then has no \<open>push\<close>, and
  the call throws.  The score found is a number, unless the name is an inherited one with
  no own score: \<open>(room.scores[playerName] || 0) + points\<close> is then a string (branch
  \<open>StringScore\<close>).  Both need an own stored choice 0 of an inherited name to get past the
  duplicate test, which no handler writes (lemmas \<open>submit_answer_never_StringScore\<close> and
  \<open>submit_answer_TypeError_only\<close>).
\<close>

definition submit_answer ::
  "int \<Rightarrow> string \<Rightarrow> int \<Rightarrow> room option \<Rightarrow> (error + submit_response) \<times> room option" where
  "submit_answer now playerName answerIndex stored =
     (case stored of
        None \<Rightarrow> (Inl CannotSubmit, None)
      | Some room \<Rightarrow>
          if status room \<noteq> St_playing \<or> phase room \<noteq> Ph_answering then (Inl CannotSubmit, None)
          else
            (let room1 = register_player now playerName room;
                 answers = (case currentQuestionAnswers room1 of None \<Rightarrow> [] | Some a \<Rightarrow> a);
                 room2 = room1\<lparr>currentQuestionAnswers := Some answers\<rparr>
             in if truthy_num (obj_get answers playerName) then (Inr AlreadyAnswered, None)
                else
                  (case current_question room2 of
                     Inl e \<Rightarrow> (Inl e, None)
                   | Inr q \<Rightarrow>
                       (let timeElapsed = elapsed now (questionStartTime room2);
                            timeLeft = max 0 (QUESTION_TIME - timeElapsed);
                            correctly = (field q ''correct'' = Some (JNum answerIndex));
                            room3 = room2\<lparr>currentQuestionAnswers := Some (obj_set answers playerName answerIndex)\<rparr>
                        in case obj_get (playerAnswers room3) playerName of
                             Undefined \<Rightarrow> (Inl TypeError, None)
                           | Inherited \<Rightarrow> (Inl TypeError, None)
                           | Own history \<Rightarrow>
                               (let room4 = room3\<lparr>playerAnswers :=
                                      obj_set (playerAnswers room3) playerName
                                        (history @
                                          [\<lparr> questionIndex = currentQuestion room3,
                                             a_question = field q ''question'',
                                             playerAnswer = answerIndex,
                                             correctAnswer = field q ''correct'',
                                             a_options = field q ''options'',
                                             a_explanation = field q ''explanation'',
                                             isCorrect = correctly \<rparr>])\<rparr>
                                in if correctly then
                                     (case obj_get (scores room4) playerName of
                                        Inherited \<Rightarrow> (Inl StringScore, None)
                                      | Undefined \<Rightarrow>
                                          (let room5 = room4\<lparr>scores := obj_set (scores room4) playerName
                                                          (0 + points timeLeft)\<rparr>;
                                               room6 = room5\<lparr>lastUpdate := now\<rparr>
                                           in (Inr (Submitted answerIndex (scores room6)), Some room6))
                                      | Own score \<Rightarrow>
                                          (let room5 = room4\<lparr>scores := obj_set (scores room4) playerName
                                                          (score + points timeLeft)\<rparr>;
                                               room6 = room5\<lparr>lastUpdate := now\<rparr>
                                           in (Inr (Submitted answerIndex (scores room6)), Some room6)))
                                   else
                                     (let room6 = room4\<lparr>lastUpdate := now\<rparr>
                                      in (Inr (Submitted answerIndex (scores room6)), Some room6)))))))"

definition api_submit_answer ::
  "int \<Rightarrow> string \<Rightarrow> string \<Rightarrow> int \<Rightarrow> store \<Rightarrow> (error + submit_response) \<times> store" where
  "api_submit_answer now roomCode playerName answerIndex st =
     (case submit_answer now playerName answerIndex (getRoom st roomCode) of
        (response, None) \<Rightarrow> (response, st)
      | (response, Some room') \<Rightarrow> (response, setRoom st roomCode room'))"

section \<open>get-results\<close>

text \<open>
  The property \<open>myAnswers\<close> of the response, \<open>room.playerAnswers[playerName] || []\<close>: the
  own history, or \<open>[]\<close> when the lookup is \<open>undefined\<close>.  When the lookup finds an inherited
  function, the property is a function and the JSON of the response has no \<open>myAnswers\<close>;
  for the name \<open>__proto__\<close> it is the prototype object, written as \<open>{}\<close>.
\<close>

datatype answers_field = Answers "answer_record list" | No_answers | Prototype_object

record results =
  r_scores :: "int obj"
  winner :: "string \<times> int"
  myAnswers :: answers_field
  r_status :: status

text \<open>\<open>Object.entries(room.scores).sort((a, b) => b[1] - a[1])\<close>: a stable sort, highest
  score first.\<close>

definition sortedScores :: "int obj \<Rightarrow> (string \<times> int) list" where
  "sortedScores sc = sort_key (\<lambda>e. - snd e) sc"

definition api_results :: "string \<Rightarrow> string \<Rightarrow> store \<Rightarrow> error + results" where
  "api_results roomCode playerName st =
     (case getRoom st roomCode of
        None \<Rightarrow> Inl NotFound
      | Some room \<Rightarrow>
          Inr \<lparr> r_scores = scores room,
                winner = (case sortedScores (scores room) of
                            [] \<Rightarrow> (''No winner'', 0)
                          | e # _ \<Rightarrow> e),
                myAnswers = (case obj_get (playerAnswers room) playerName of
                               Undefined \<Rightarrow> Answers []
                             | Own h \<Rightarrow> Answers h
                             | Inherited \<Rightarrow>
                                 if playerName = ''__proto__'' then Prototype_object else No_answers),
                r_status = status room \<rparr>)"

section \<open>load-questions\<close>

text \<open>
  What the generation step gives the handler inside its \<open>try\<close> block:
  \<^item> \<open>Gen_throws\<close>: \<open>generateContent\<close> or \<open>response.text()\<close> throws;
  \<^item> \<open>Not_json\<close>: the text, stripped of its code fences, is not JSON and
    \<open>JSON.parse\<close> throws;
  \<^item> \<open>Parsed j\<close>: the text parses to the value \<open>j\<close>.
\<close>

datatype gen_output =
    Gen_throws
  | Not_json
  | Parsed json

text \<open>
  \<open>[...quizData.questions]\<close>: the elements that the spread adds to the question list, or
  \<open>None\<close> when it throws.  Reading \<open>questions\<close> of \<open>null\<close> throws; a value that is not an
  object has no \<open>questions\<close>; and of the values \<open>questions\<close> may have, an array spreads
  to its elements and a string to its characters, while \<open>undefined\<close>, \<open>null\<close>, a number, a
  boolean and an object are not iterable.
\<close>

definition spread_questions :: "json \<Rightarrow> json list option" where
  "spread_questions quizData =
     (case field quizData ''questions'' of
        Some (JArr qs) \<Rightarrow> Some qs
      | Some (JStr s) \<Rightarrow> Some (map (\<lambda>c. JStr [c]) s)
      | _ \<Rightarrow> None)"



text \<open>The fields of the request body, after \<open>parseInt\<close> (\<open>None\<close> is \<open>NaN\<close> or a missing
  field), and the text \<open>allContent\<close> assembled from the uploaded files and the pasted
  content.\<close>

record upload_request =
  u_allContent :: string
  u_fileNames :: "string list"
  u_quizName :: "string option"
  u_numQuestions :: "int option"
  u_useExisting :: "string option"
  u_mixMode :: bool
  u_mixCount :: "int option"

record upload_response =
  numQuestions :: nat
  quizId :: string
  quizName :: string

text \<open>\<open>parseInt(x) || d\<close>.\<close>

definition or_default :: "int option \<Rightarrow> int \<Rightarrow> int" where
  "or_default v d = (case v of None \<Rightarrow> d | Some n \<Rightarrow> if n = 0 then d else n)"

text \<open>Truthiness of a string or \<open>undefined\<close>.\<close>

definition truthy_str :: "string option \<Rightarrow> bool" where
  "truthy_str v = (case v of None \<Rightarrow> False | Some s \<Rightarrow> s \<noteq> [])"

text \<open>\<open>xs.slice(0, n)\<close>; a negative \<open>n\<close> counts from the end.\<close>

definition slice0 :: "'a list \<Rightarrow> int \<Rightarrow> 'a list" where
  "slice0 xs n = (if 0 \<le> n then take (nat n) xs else take (length xs - nat (- n)) xs)"

text \<open>\<open>names.join(', ')\<close>.\<close>

fun join_names :: "string list \<Rightarrow> string" where
  "join_names [] = []"
| "join_names [n] = n"
| "join_names (n # ns) = n @ '', '' @ join_names ns"

text \<open>\<open>allContent.trim()\<close> is truthy when some character is not white space (tab, line
  feed, vertical tab, form feed, carriage return, space).\<close>

definition is_space :: "char \<Rightarrow> bool" where
  "is_space c = ((of_char c :: nat) \<in> {9, 10, 11, 12, 13, 32})"

definition trim_truthy :: "string \<Rightarrow> bool" where
  "trim_truthy s = list_ex (\<lambda>c. \<not> is_space c) s"

text \<open>
  The handler of \<open>POST /api/upload-content/:roomCode\<close>.  The random draws are arguments:
  \<open>shuffle1\<close> and \<open>shuffle2\<close> are the outcomes of the two \<open>sort(() => Math.random() - 0.5)\<close>
  calls, \<open>newQuizId\<close> the id drawn for the archive.  The room read from the store is
  changed in memory (\<open>courseContent\<close>, \<open>fileNames\<close>) before the \<open>try\<close> block, and written
  back by the one \<open>setRoom\<close> after the questions are assembled; every exception inside
  the block is caught and answered with status 500.
\<close>

definition api_upload_content ::
  "int \<Rightarrow> string \<Rightarrow> upload_request \<Rightarrow> gen_output \<Rightarrow>
   (json list \<Rightarrow> json list) \<Rightarrow> (json list \<Rightarrow> json list) \<Rightarrow>
   string \<Rightarrow> store \<Rightarrow> archive \<Rightarrow> (error + upload_response) \<times> store \<times> archive" where
  "api_upload_content now roomCode req gen shuffle1 shuffle2 newQuizId st ar =
     (case getRoom st roomCode of
        None \<Rightarrow> (Inl NotFound, st, ar)
      | Some room0 \<Rightarrow>
          (let room = room0\<lparr>courseContent := u_allContent req, fileNames := u_fileNames req\<rparr>;
               qName = (if truthy_str (u_quizName req) then (case u_quizName req of Some n \<Rightarrow> n | None \<Rightarrow> [])
                        else if join_names (u_fileNames req) \<noteq> [] then join_names (u_fileNames req)
                        else ''Untitled Quiz'');
               numQ = or_default (u_numQuestions req) 10;
               mixMode = u_mixMode req;
               mixCount = or_default (u_mixCount req) 5;
               existing =
                 (case u_useExisting req of
                    None \<Rightarrow> []
                  | Some qid \<Rightarrow>
                      if qid = [] then []
                      else (case getSavedQuiz ar qid of
                              None \<Rightarrow> []
                            | Some existingQuiz \<Rightarrow>
                                if mixMode then slice0 (shuffle1 (q_questions existingQuiz)) (numQ - mixCount)
                                else q_questions existingQuiz));
               needNewQuestions = (\<not> truthy_str (u_useExisting req) \<or> mixMode);
               assembled =
                 (if needNewQuestions \<and> trim_truthy (u_allContent req) then
                    (case gen of
                       Parsed quizData \<Rightarrow>
                         (case spread_questions quizData of
                            Some new \<Rightarrow> Some (existing @ new)
                          | None \<Rightarrow> None)
                     | _ \<Rightarrow> None)
                  else Some existing)
           in case assembled of
                None \<Rightarrow> (Inl FailedToGenerate, st, ar)
              | Some qs \<Rightarrow>
                  (let shuffled = shuffle2 qs;
                       room' = room\<lparr>questions := shuffled, lastUpdate := now\<rparr>
                   in (Inr \<lparr> numQuestions = length shuffled, quizId = newQuizId, quizName = qName \<rparr>,
                       setRoom st roomCode room',
                       saveQuiz ar newQuizId
                         \<lparr> q_name = qName, q_questions = shuffled,
                           q_fileNames = u_fileNames req, q_createdAt = now \<rparr>))))"

text \<open>The handler of \<open>POST /api/load-quiz/:roomCode\<close>.\<close>

definition api_load_quiz ::
  "int \<Rightarrow> string \<Rightarrow> string \<Rightarrow> (json list \<Rightarrow> json list) \<Rightarrow>
   store \<Rightarrow> archive \<Rightarrow> (error + nat \<times> string) \<times> store" where
  "api_load_quiz now roomCode qid shuffle st ar =
     (case getRoom st roomCode of
        None \<Rightarrow> (Inl NotFound, st)
      | Some room \<Rightarrow>
          (case getSavedQuiz ar qid of
             None \<Rightarrow> (Inl NotFound, st)
           | Some qz \<Rightarrow>
               (let room' = room\<lparr>questions := shuffle (q_questions qz), lastUpdate := now\<rparr>
                in (Inr (length (questions room'), q_name qz), setRoom st roomCode room'))))"

section \<open>Requests that overlap\<close>

text \<open>
  A handler gives up control at each \<open>await\<close>: between a request's \<open>getRoom\<close> and its
  \<open>setRoom\<close> the store serves other requests.  A schedule is the order in which the
  store sees the reads and writes of the submit-answer requests \<open>0, 1, ...\<close> for one
  room; a request computes from the room it read.
\<close>

datatype event = Ev_get nat | Ev_set nat

record submit_request =
  rq_now :: int
  rq_player :: string
  rq_answer :: int

record run_state =
  rs_store :: store
  rs_read :: "(nat \<times> room option) list"
  rs_responses :: "(nat \<times> (error + submit_response)) list"

definition run_event :: "string \<Rightarrow> submit_request list \<Rightarrow> event \<Rightarrow> run_state \<Rightarrow> run_state" where
  "run_event roomCode reqs ev s =
     (case ev of
        Ev_get i \<Rightarrow> s\<lparr>rs_read := (i, getRoom (rs_store s) roomCode) # rs_read s\<rparr>
      | Ev_set i \<Rightarrow>
          (case map_of (rs_read s) i of
             None \<Rightarrow> s
           | Some stored \<Rightarrow>
               if i < length reqs then
                 (case submit_answer (rq_now (reqs ! i)) (rq_player (reqs ! i)) (rq_answer (reqs ! i)) stored of
                    (response, None) \<Rightarrow> s\<lparr>rs_responses := rs_responses s @ [(i, response)]\<rparr>
                  | (response, Some room') \<Rightarrow>
                      s\<lparr>rs_store := setRoom (rs_store s) roomCode room',
                        rs_responses := rs_responses s @ [(i, response)]\<rparr>)
               else s))"

definition run_schedule :: "string \<Rightarrow> submit_request list \<Rightarrow> event list \<Rightarrow> store \<Rightarrow> run_state" where
  "run_schedule roomCode reqs evs st =
     fold (run_event roomCode reqs) evs \<lparr>rs_store = st, rs_read = [], rs_responses = []\<rparr>"

section \<open>Example rooms\<close>

text \<open>A two-question game in progress, started at time 1000 and not yet answered, and a
  store that holds it under the code \<open>ROOM01\<close>.\<close>

definition demo_question :: json where
  "demo_question =
     JObj [(''question'', JStr ''Which service stores objects?''),
           (''options'', JArr [JStr ''A) S3'', JStr ''B) EC2'', JStr ''C) VPC'', JStr ''D) IAM'']),
           (''correct'', JNum 0),
           (''explanation'', JStr ''S3 is the object store.'')]"

definition demo_question2 :: json where
  "demo_question2 =
     JObj [(''question'', JStr ''Which service runs virtual machines?''),
           (''options'', JArr [JStr ''A) S3'', JStr ''B) SQS'', JStr ''C) EC2'', JStr ''D) IAM'']),
           (''correct'', JNum 2),
           (''explanation'', JStr ''EC2 runs instances.'')]"

definition demo_room :: room where
  "demo_room =
     (new_room (Some ''Cloud'') None 0)
       \<lparr> questions := [demo_question, demo_question2],
         status := St_playing,
         phase := Ph_answering,
         questionStartTime := 1000,
         currentQuestionAnswers := Some [] \<rparr>"

definition demo_store :: store where
  "demo_store = Map.empty(''ROOM01'' \<mapsto> demo_room)"

text \<open>The same game showing the answer of its last question since time 40000.\<close>

definition last_reveal_room :: room where
  "last_reveal_room =
     demo_room\<lparr>currentQuestion := 1, phase := Ph_revealing, revealStartTime := 40000\<rparr>"

definition last_reveal_store :: store where
  "last_reveal_store = Map.empty(''ROOM01'' \<mapsto> last_reveal_room)"




definition demo_upload :: upload_request where
  "demo_upload =
     \<lparr> u_allContent = ''Object storage keeps blobs.'',
       u_fileNames = [],
       u_quizName = None,
       u_numQuestions = Some 1,
       u_useExisting = None,
       u_mixMode = False,
       u_mixCount = None \<rparr>"

text \<open>Ann has joined that game and answered its first question correctly at time 2000.\<close>

definition joined_room :: room where
  "joined_room =
     demo_room
       \<lparr> players := [\<lparr>name = ''Ann'', joinedAt = 500\<rparr>],
         scores := [(''Ann'', 1450)],
         playerAnswers :=
           [(''Ann'',
             [\<lparr> questionIndex = 0,
                a_question = field demo_question ''question'',
                playerAnswer = 0,
                correctAnswer = field demo_question ''correct'',
                a_options = field demo_question ''options'',
                a_explanation = field demo_question ''explanation'',
                isCorrect = True \<rparr>])],
         currentQuestionAnswers := Some [(''Ann'', 0)],
         lastUpdate := 2000 \<rparr>"

definition joined_store :: store where
  "joined_store = Map.empty(''ROOM01'' \<mapsto> joined_room)"

text \<open>A room that has just been created, waiting for its questions.\<close>

definition lobby_store :: store where
  "lobby_store = Map.empty(''LOBBY1'' \<mapsto> new_room (Some ''Cloud'') None 0)"

text \<open>Two submissions for the first question of the demo room: Ann chooses option 0, the
  correct one, and Bob option 1.\<close>

definition demo_requests :: "submit_request list" where
  "demo_requests =
     [\<lparr>rq_now = 2000, rq_player = ''Ann'', rq_answer = 0\<rparr>,
      \<lparr>rq_now = 2500, rq_player = ''Bob'', rq_answer = 1\<rparr>]"

section \<open>The invariant of the player list\<close>

text \<open>For every player of the list the score lookup and the history lookup find
  something: each handler that pushes a player initialises both where the lookup is
  \<open>undefined\<close>, and start-game assigns both for every player.\<close>

definition registered :: "room \<Rightarrow> bool" where
  "registered room =
     list_all (\<lambda>p. obj_get (scores room) (name p) \<noteq> Undefined
                  \<and> obj_get (playerAnswers room) (name p) \<noteq> Undefined)
       (players room)"

text \<open>No choice of the current question is stored under a name that
  \<open>Object.prototype\<close> defines.\<close>

definition plain_answers :: "room \<Rightarrow> bool" where
  "plain_answers room =
     list_all (\<lambda>k. obj_own (case currentQuestionAnswers room of None \<Rightarrow> [] | Some x \<Rightarrow> x) k = None)
       inherited_names"

section \<open>Properties of the object model\<close>

lemma map_of_replace_key:
  "k \<in> fst ` set ob \<Longrightarrow> map_of (replace_key ob k v) k' = (if k' = k then Some v else map_of ob k')"
  by (induction ob) force+

lemma map_of_insert_index:
  "map_of (insert_index ob k v) k' = (if k' = k then Some v else map_of ob k')"
  by (induction ob) auto

lemma map_of_append_new:
  "k \<notin> fst ` set ob \<Longrightarrow> map_of (ob @ [(k, v)]) k' = (if k' = k then Some v else map_of ob k')"
  by (induction ob) auto

lemma map_of_obj_set:
  "k \<noteq> ''__proto__'' \<Longrightarrow> map_of (obj_set ob k v) k' = (if k' = k then Some v else map_of ob k')"
proof (cases "k \<in> fst ` set ob")
  case True
  then show "k \<noteq> ''__proto__'' \<Longrightarrow> ?thesis"
    by (simp add: obj_set_def map_of_replace_key)
next
  case False
  then show "k \<noteq> ''__proto__'' \<Longrightarrow> ?thesis"
    by (simp add: obj_set_def map_of_insert_index map_of_append_new del: map_of_append)
qed

text \<open>Assigning a property and reading it back, whatever place the key takes in the
  enumeration order.\<close>

lemma obj_own_obj_set:
  "obj_own (obj_set ob k v) k' = (if k' = k \<and> k \<noteq> ''__proto__'' then Some v else obj_own ob k')"
proof (cases "k = ''__proto__''")
  case True
  then show ?thesis
    by (simp add: obj_set_def)
next
  case False
  then show ?thesis
    by (simp add: obj_own_def map_of_obj_set)
qed

lemma obj_get_obj_set:
  "obj_get (obj_set ob k v) k' = (if k' = k \<and> k \<noteq> ''__proto__'' then Own v else obj_get ob k')"
  by (simp add: obj_get_def obj_own_obj_set)

lemma obj_get_Own: "(obj_get ob k = Own v) = (obj_own ob k = Some v)"
  by (simp add: obj_get_def split: option.splits)

lemma obj_get_Undefined: "obj_get ob k = Undefined \<Longrightarrow> obj_own ob k = None \<and> k \<noteq> ''__proto__''"
  by (auto simp: obj_get_def inherited_names_def split: option.splits if_splits)

lemma obj_get_Inherited: "obj_get ob k = Inherited \<Longrightarrow> obj_own ob k = None"
  by (auto simp: obj_get_def split: option.splits if_splits)

lemma obj_own_proto [simp]: "obj_own ob ''__proto__'' = None"
  by (simp add: obj_own_def)

section \<open>Registering a player\<close>

lemma register_player_fields [simp]:
  "status (register_player now p room) = status room"
  "phase (register_player now p room) = phase room"
  "questions (register_player now p room) = questions room"
  "currentQuestion (register_player now p room) = currentQuestion room"
  "questionStartTime (register_player now p room) = questionStartTime room"
  "revealStartTime (register_player now p room) = revealStartTime room"
  "currentQuestionAnswers (register_player now p room) = currentQuestionAnswers room"
  by (simp_all add: register_player_def Let_def)

lemma register_player_scores:
  "obj_get (scores (register_player now p room)) p' =
     (if p' = p \<and> obj_get (scores room) p = Undefined then Own 0 else obj_get (scores room) p')"
  using obj_get_Undefined [of "scores room" p]
  by (auto simp: register_player_def Let_def obj_get_obj_set)

lemma register_player_history:
  "obj_get (playerAnswers (register_player now p room)) p' =
     (if p' = p \<and> obj_get (playerAnswers room) p = Undefined then Own []
      else obj_get (playerAnswers room) p')"
  using obj_get_Undefined [of "playerAnswers room" p]
  by (auto simp: register_player_def Let_def obj_get_obj_set)

lemma register_player_own_scores:
  "obj_own (scores (register_player now p room)) p' =
     (if p' = p \<and> obj_get (scores room) p = Undefined then Some 0 else obj_own (scores room) p')"
  using obj_get_Undefined [of "scores room" p]
  by (auto simp: register_player_def Let_def obj_own_obj_set)

lemma register_player_own_history:
  "obj_own (playerAnswers (register_player now p room)) p' =
     (if p' = p \<and> obj_get (playerAnswers room) p = Undefined then Some []
      else obj_own (playerAnswers room) p')"
  using obj_get_Undefined [of "playerAnswers room" p]
  by (auto simp: register_player_def Let_def obj_own_obj_set)

lemma register_player_players:
  "players (register_player now p room) =
     (if find (\<lambda>q. name q = p) (players room) = None
      then players room @ [\<lparr>name = p, joinedAt = now\<rparr>] else players room)"
  by (simp add: register_player_def Let_def)

lemma register_player_known:
  assumes "find (\<lambda>q. name q = p) (players room) \<noteq> None"
    and "obj_get (scores room) p \<noteq> Undefined"
    and "obj_get (playerAnswers room) p \<noteq> Undefined"
  shows "register_player now p room = room"
  using assms by (auto simp: register_player_def Let_def)

lemma current_question_register [simp]:
  "current_question (register_player now p room) = current_question room"
  by (simp add: current_question_def)

lemma current_question_answers_update [simp]:
  "current_question (room\<lparr>currentQuestionAnswers := x\<rparr>) = current_question room"
  by (simp add: current_question_def)

lemma current_question_Inr:
  "(current_question room = Inr q) =
     (currentQuestion room < length (questions room)
      \<and> q = questions room ! currentQuestion room \<and> q \<noteq> JNull)"
  by (auto simp: current_question_def)

section \<open>Room codes\<close>

lemma toUpperCase_char_base36:
  "c \<in> set ''0123456789abcdefghijklmnopqrstuvwxyz'' \<Longrightarrow>
   toUpperCase_char c \<in> set ''0123456789ABCDEFGHIJKLMNOPQRSTUVWXYZ''"
  by (auto simp: toUpperCase_char_def)

text \<open>A code never has more than six characters, and it has six when the random text
  has at least six digits after the point.\<close>

lemma length_makeRoomCode: "length (makeRoomCode rnd36) = min 6 (length rnd36 - 2)"
  by (simp add: makeRoomCode_def toUpperCase_def substring_def)

lemma makeRoomCode_alphabet:
  assumes "set (drop 2 rnd36) \<subseteq> set ''0123456789abcdefghijklmnopqrstuvwxyz''"
  shows "set (makeRoomCode rnd36) \<subseteq> set ''0123456789ABCDEFGHIJKLMNOPQRSTUVWXYZ''"
proof
  fix c
  assume "c \<in> set (makeRoomCode rnd36)"
  then obtain d where d: "d \<in> set (take 6 (drop 2 rnd36))" and c: "c = toUpperCase_char d"
    by (auto simp: makeRoomCode_def toUpperCase_def substring_def)
  from d have "d \<in> set (drop 2 rnd36)"
    by (rule in_set_takeD)
  with assms have "d \<in> set ''0123456789abcdefghijklmnopqrstuvwxyz''"
    by blast
  with c show "c \<in> set ''0123456789ABCDEFGHIJKLMNOPQRSTUVWXYZ''"
    using toUpperCase_char_base36 by blast
qed

text \<open>
  C6.  The claim is that every create-room call returns a code of exactly six upper-case
  alphanumeric characters.  For the random draw 0.5, whose base-36 text is \<open>0.i\<close>, the
  handler returns the one-character code \<open>I\<close>; for the draw 0, whose text is \<open>0\<close>, it
  returns the empty code.
\<close>

theorem create_room_short_code:
  "fst (api_create_room ''0.i'' roomName isPublicArg now st) = ''I''
   \<and> length (fst (api_create_room ''0.i'' roomName isPublicArg now st)) \<noteq> 6
   \<and> fst (api_create_room ''0'' roomName isPublicArg now st) = []"
  by (simp add: api_create_room_def Let_def makeRoomCode_def substring_def toUpperCase_def
      toUpperCase_char_def)

section \<open>Submitting an answer\<close>

text \<open>The handler answers \<open>submitted\<close> on one path only: the room is playing and
  answering, the stored choice found for the player is falsy, the current question can be
  read, the history found is an array, and, for a correct choice, the score found is not
  an inherited value.\<close>

lemma submit_answer_Submitted_only:
  assumes "submit_answer now p a (Some room) = (Inr (Submitted a' sc), w)"
  shows "status room = St_playing \<and> phase room = Ph_answering
     \<and> \<not> truthy_num (obj_get (case currentQuestionAnswers room of None \<Rightarrow> [] | Some x \<Rightarrow> x) p)
     \<and> (\<exists>q. current_question room = Inr q
            \<and> (field q ''correct'' = Some (JNum a) \<longrightarrow>
                 obj_get (scores (register_player now p room)) p \<noteq> Inherited))
     \<and> (\<exists>h. obj_get (playerAnswers (register_player now p room)) p = Own h)"
  using assms
  by (auto simp: submit_answer_def Let_def split: if_splits sum.splits lookup.splits)

text \<open>What the handler answers and writes on that path.\<close>

lemma submit_answer_written:
  assumes "status room = St_playing" and "phase room = Ph_answering"
    and "\<not> truthy_num (obj_get (case currentQuestionAnswers room of None \<Rightarrow> [] | Some x \<Rightarrow> x) p)"
    and "current_question room = Inr q"
    and "obj_get (playerAnswers (register_player now p room)) p = Own h"
    and "field q ''correct'' = Some (JNum a) \<longrightarrow> obj_get (scores (register_player now p room)) p \<noteq> Inherited"
  shows "\<exists>room'. submit_answer now p a (Some room) = (Inr (Submitted a (scores room')), Some room')
     \<and> or0 (obj_own (scores room') p) =
         or0 (obj_own (scores room) p)
           + (if field q ''correct'' = Some (JNum a)
              then points (max 0 (QUESTION_TIME - elapsed now (questionStartTime room))) else 0)
     \<and> (obj_get (scores room) p \<noteq> Inherited \<longrightarrow> obj_own (scores room') p \<noteq> None)
     \<and> (\<forall>p'. p' \<noteq> p \<longrightarrow> obj_own (scores room') p' = obj_own (scores room) p')
     \<and> (\<forall>p'. obj_get (scores (register_player now p room)) p' \<noteq> Undefined \<longrightarrow>
               obj_get (scores room') p' \<noteq> Undefined)
     \<and> (\<forall>p'. obj_own (playerAnswers room') p' =
           (if p' = p
            then Some (h @
                   [\<lparr> questionIndex = currentQuestion room,
                      a_question = field q ''question'',
                      playerAnswer = a,
                      correctAnswer = field q ''correct'',
                      a_options = field q ''options'',
                      a_explanation = field q ''explanation'',
                      isCorrect = (field q ''correct'' = Some (JNum a)) \<rparr>])
            else obj_own (playerAnswers room) p'))
     \<and> (\<forall>p'. obj_get (playerAnswers (register_player now p room)) p' \<noteq> Undefined \<longrightarrow>
               obj_get (playerAnswers room') p' \<noteq> Undefined)
     \<and> currentQuestionAnswers room' =
           Some (obj_set (case currentQuestionAnswers room of None \<Rightarrow> [] | Some x \<Rightarrow> x) p a)
     \<and> status room' = status room \<and> phase room' = phase room
     \<and> questions room' = questions room \<and> currentQuestion room' = currentQuestion room
     \<and> players room' = players (register_player now p room)"
proof -
  let ?r1 = "register_player now p room"
  have hown: "obj_own (playerAnswers ?r1) p = Some h" and notproto: "p \<noteq> ''__proto__''"
    using assms(5) by (auto simp: obj_get_Own obj_own_def split: if_splits)
  have others: "obj_own (playerAnswers ?r1) p' = obj_own (playerAnswers room) p'" if "p' \<noteq> p" for p'
    using that by (simp add: register_player_own_history)
  have sdef: "obj_get (scores ?r1) p \<noteq> Undefined"
    by (simp add: register_player_scores)
  have sown: "or0 (obj_own (scores ?r1) p) = or0 (obj_own (scores room) p)"
    using obj_get_Undefined [of "scores room" p]
    by (auto simp: register_player_own_scores or0_def)
  have sothers: "obj_own (scores ?r1) p' = obj_own (scores room) p'" if "p' \<noteq> p" for p'
    using that by (simp add: register_player_own_scores)
  have skeep: "obj_get (scores room) p \<noteq> Inherited \<longrightarrow> obj_own (scores ?r1) p \<noteq> None"
    using obj_get_Own [of "scores room" p]
    by (cases "obj_get (scores room) p") (auto simp: register_player_own_scores)
  show ?thesis
  proof (cases "field q ''correct'' = Some (JNum a)")
    case False
    then show ?thesis
      using assms(1-5) hown notproto others sown sothers skeep
      by (simp add: submit_answer_def Let_def obj_own_obj_set obj_get_obj_set)
  next
    case True
    with assms(6) sdef obtain s where s: "obj_get (scores ?r1) p = Own s"
      by (cases "obj_get (scores ?r1) p") auto
    then have "obj_own (scores ?r1) p = Some s"
      by (simp add: obj_get_Own)
    with sown have "s = or0 (obj_own (scores room) p)"
      by (simp add: or0_def)
    then show ?thesis
      using True s assms(1-5) hown notproto others sothers
      by (simp add: submit_answer_def Let_def obj_own_obj_set obj_get_obj_set or0_def)
  qed
qed

text \<open>A submission by a player for whom a choice other than 0 is stored is answered as a
  duplicate, and nothing is written.\<close>

lemma submit_answer_duplicate:
  assumes "getRoom st roomCode = Some room"
    and "status room = St_playing" and "phase room = Ph_answering"
    and "currentQuestionAnswers room = Some answers"
    and "obj_get answers p = Own chosen" and "chosen \<noteq> 0"
  shows "api_submit_answer now roomCode p a st = (Inr AlreadyAnswered, st)"
  using assms
  by (simp add: api_submit_answer_def submit_answer_def Let_def truthy_num_def)



text \<open>The windows in milliseconds: the rounded-down seconds reach the window exactly when
  the milliseconds do.\<close>

lemma elapsed_ge_iff: "(n \<le> elapsed now start) = (n * 1000 \<le> now - start)"
  unfolding elapsed_def by linarith

lemma elapsed_same [simp]: "elapsed now now = 0"
  by (simp add: elapsed_def)


lemma obj_get_Inherited_name: "obj_get ob k = Inherited \<Longrightarrow> k \<in> set inherited_names"
  by (auto simp: obj_get_def split: option.splits if_splits)




text \<open>
  C1.  The claim is that a player already present in \<open>currentQuestionAnswers\<close> gets the
  duplicate signal for every chosen option, option 0 included.  In the demo room Ann
  chooses option 0, which is stored as her choice; her second submission for the same
  question is answered \<open>submitted\<close> again, her score goes from 1450 to 2850 and her
  history holds two records for question 0.
\<close>

theorem resubmit_after_option_0_counts_twice:
  "fst (api_submit_answer 2000 ''ROOM01'' ''Ann'' 0 demo_store) = Inr (Submitted 0 [(''Ann'', 1450)])
   \<and> map_option currentQuestionAnswers (snd (api_submit_answer 2000 ''ROOM01'' ''Ann'' 0 demo_store) ''ROOM01'')
       = Some (Some [(''Ann'', 0)])
   \<and> fst (api_submit_answer 3000 ''ROOM01'' ''Ann'' 0
            (snd (api_submit_answer 2000 ''ROOM01'' ''Ann'' 0 demo_store)))
       = Inr (Submitted 0 [(''Ann'', 2850)])
   \<and> map_option (\<lambda>room. map_option (map questionIndex) (obj_own (playerAnswers room) ''Ann''))
        (snd (api_submit_answer 3000 ''ROOM01'' ''Ann'' 0
               (snd (api_submit_answer 2000 ''ROOM01'' ''Ann'' 0 demo_store))) ''ROOM01'')
       = Some (Some [0, 0])"
  by code_simp

section \<open>Resolving the phase on a read\<close>

text \<open>What one evaluation writes, by the phase it finds in a room that is playing.\<close>

lemma api_question_answering_closed:
  assumes "getRoom st roomCode = Some room" and "status room = St_playing"
    and "phase room = Ph_answering" and "QUESTION_TIME \<le> elapsed now (questionStartTime room)"
  shows "api_question now roomCode st =
     (question_view now (room\<lparr>phase := Ph_revealing, revealStartTime := now\<rparr>),
      setRoom st roomCode (room\<lparr>phase := Ph_revealing, revealStartTime := now\<rparr>))"
  using assms by (simp add: api_question_def Let_def REVEAL_TIME_def)

lemma api_question_answering_open:
  assumes "getRoom st roomCode = Some room" and "status room = St_playing"
    and "phase room = Ph_answering" and "\<not> QUESTION_TIME \<le> elapsed now (questionStartTime room)"
  shows "api_question now roomCode st = (question_view now room, st)"
  using assms by (simp add: api_question_def Let_def)

lemma api_question_revealing_closed:
  assumes "getRoom st roomCode = Some room" and "status room = St_playing"
    and "phase room = Ph_revealing" and "REVEAL_TIME \<le> elapsed now (revealStartTime room)"
  shows "api_question now roomCode st =
     (if length (questions room) \<le> currentQuestion room + 1
      then (Inr (Game_finished (scores room)),
            setRoom st roomCode
              (room\<lparr>currentQuestion := currentQuestion room + 1, currentQuestionAnswers := Some [],
                    status := St_finished\<rparr>))
      else (question_view now
              (room\<lparr>currentQuestion := currentQuestion room + 1, currentQuestionAnswers := Some [],
                    phase := Ph_answering, questionStartTime := now\<rparr>),
            setRoom st roomCode
              (room\<lparr>currentQuestion := currentQuestion room + 1, currentQuestionAnswers := Some [],
                    phase := Ph_answering, questionStartTime := now\<rparr>)))"
  using assms by (simp add: api_question_def Let_def)

lemma api_question_revealing_open:
  assumes "getRoom st roomCode = Some room" and "status room = St_playing"
    and "phase room = Ph_revealing" and "\<not> REVEAL_TIME \<le> elapsed now (revealStartTime room)"
  shows "api_question now roomCode st = (question_view now room, st)"
  using assms by (simp add: api_question_def Let_def)

lemma api_question_waiting:
  assumes "getRoom st roomCode = Some room" and "status room = St_playing"
    and "phase room = Ph_waiting"
  shows "api_question now roomCode st = (question_view now room, st)"
  using assms by (simp add: api_question_def Let_def)

lemma getRoom_setRoom [simp]: "getRoom (setRoom st roomCode room) roomCode = Some room"
  by (simp add: getRoom_def setRoom_def)

text \<open>
  C3.  For a room that is playing, one evaluation of the current view resolves at most
  one phase boundary.  The room in the store after the call is the room as it was, or
  the room moved from answering to revealing with \<open>revealStartTime = now\<close>, or the room
  moved out of revealing with the question index raised by one and the answers of the
  question cleared.  When the answer window has run out the first move is made; when the
  reveal window has run out the second is made; a call that finds the phase answering
  never changes the question index, so after a long gap a second call, at least the
  reveal window later, is the one that advances it.
\<close>

theorem one_boundary_per_evaluation:
  assumes "getRoom st roomCode = Some room" and "status room = St_playing"
  shows "(\<exists>room'. getRoom (snd (api_question now roomCode st)) roomCode = Some room'
          \<and> (room' = room
             \<or> phase room = Ph_answering \<and> room' = room\<lparr>phase := Ph_revealing, revealStartTime := now\<rparr>
             \<or> phase room = Ph_revealing
                \<and> currentQuestion room' = currentQuestion room + 1
                \<and> currentQuestionAnswers room' = Some []
                \<and> revealStartTime room' = revealStartTime room))
     \<and> (phase room = Ph_answering \<and> QUESTION_TIME * 1000 \<le> now - questionStartTime room \<longrightarrow>
          getRoom (snd (api_question now roomCode st)) roomCode
            = Some (room\<lparr>phase := Ph_revealing, revealStartTime := now\<rparr>))
     \<and> (phase room = Ph_revealing \<and> REVEAL_TIME * 1000 \<le> now - revealStartTime room \<longrightarrow>
          (\<exists>room'. getRoom (snd (api_question now roomCode st)) roomCode = Some room'
             \<and> currentQuestion room' = currentQuestion room + 1
             \<and> currentQuestionAnswers room' = Some []))
     \<and> (phase room = Ph_answering \<longrightarrow>
          (\<exists>room'. getRoom (snd (api_question now roomCode st)) roomCode = Some room'
             \<and> currentQuestion room' = currentQuestion room
             \<and> currentQuestionAnswers room' = currentQuestionAnswers room
             \<and> status room' = St_playing))
     \<and> (phase room = Ph_answering \<and> QUESTION_TIME * 1000 \<le> now - questionStartTime room
          \<and> REVEAL_TIME * 1000 \<le> later - now \<longrightarrow>
          (\<exists>room''. getRoom (snd (api_question later roomCode (snd (api_question now roomCode st)))) roomCode
               = Some room''
             \<and> currentQuestion room'' = currentQuestion room + 1))"
proof (cases "phase room")
  case Ph_waiting
  then show ?thesis
    using assms by (simp add: api_question_waiting)
next
  case Ph_answering
  show ?thesis
  proof (cases "QUESTION_TIME \<le> elapsed now (questionStartTime room)")
    case True
    let ?r = "room\<lparr>phase := Ph_revealing, revealStartTime := now\<rparr>"
    have first: "snd (api_question now roomCode st) = setRoom st roomCode ?r"
      using assms Ph_answering True by (simp add: api_question_answering_closed)
    have second: "REVEAL_TIME * 1000 \<le> later - now \<Longrightarrow>
        \<exists>room''. getRoom (snd (api_question later roomCode (setRoom st roomCode ?r))) roomCode = Some room''
          \<and> currentQuestion room'' = currentQuestion room + 1"
    proof -
      assume "REVEAL_TIME * 1000 \<le> later - now"
      then have "REVEAL_TIME \<le> elapsed later (revealStartTime ?r)"
        by (simp add: elapsed_ge_iff)
      then show ?thesis
        using api_question_revealing_closed [of "setRoom st roomCode ?r" roomCode ?r later] assms(2)
        by simp
    qed
    show ?thesis
      using Ph_answering True first second assms(2) by (simp add: elapsed_ge_iff)
  next
    case False
    then show ?thesis
      using assms Ph_answering by (simp add: api_question_answering_open elapsed_ge_iff)
  qed
next
  case Ph_revealing
  show ?thesis
  proof (cases "REVEAL_TIME \<le> elapsed now (revealStartTime room)")
    case True
    then show ?thesis
      using assms Ph_revealing by (simp add: api_question_revealing_closed elapsed_ge_iff)
  next
    case False
    then show ?thesis
      using assms Ph_revealing by (simp add: api_question_revealing_open elapsed_ge_iff)
  qed
qed

theorem one_boundary_per_evaluation_witness:
  "getRoom demo_store ''ROOM01'' = Some demo_room \<and> status demo_room = St_playing
   \<and> phase demo_room = Ph_answering \<and> QUESTION_TIME * 1000 \<le> 100000 - questionStartTime demo_room
   \<and> REVEAL_TIME * 1000 \<le> 105000 - 100000
   \<and> getRoom (snd (api_question 100000 ''ROOM01'' demo_store)) ''ROOM01''
        = Some (demo_room\<lparr>phase := Ph_revealing, revealStartTime := 100000\<rparr>)
   \<and> (\<exists>room''. getRoom (snd (api_question 105000 ''ROOM01'' (snd (api_question 100000 ''ROOM01'' demo_store))))
                 ''ROOM01'' = Some room''
          \<and> currentQuestion room'' = currentQuestion demo_room + 1)"
proof -
  have g: "getRoom demo_store ''ROOM01'' = Some demo_room"
    by (simp add: getRoom_def demo_store_def)
  have p: "status demo_room = St_playing" "phase demo_room = Ph_answering"
    by (simp_all add: demo_room_def)
  have l: "QUESTION_TIME * 1000 \<le> 100000 - questionStartTime demo_room"
    "REVEAL_TIME * 1000 \<le> 105000 - (100000::int)"
    by (simp_all add: demo_room_def QUESTION_TIME_def REVEAL_TIME_def)
  from one_boundary_per_evaluation [OF g p(1), of 100000 105000] show ?thesis
    using g p l by simp
qed

section \<open>The view of the current question\<close>

text \<open>
  C4, as claimed, fails: the claim is that for every room in status playing the response
  has the text and the options of the current question.  The room of this store is
  playing and shows the answer of its last question; read 6 seconds after the reveal
  began, the handler ends the game and answers with the finished payload, which has the
  scores and no question.
\<close>

theorem finishing_call_has_no_question:
  "getRoom last_reveal_store ''ROOM01'' = Some last_reveal_room
   \<and> status last_reveal_room = St_playing
   \<and> fst (api_question 46000 ''ROOM01'' last_reveal_store) = Inr (Game_finished [])"
  by (simp add: last_reveal_store_def last_reveal_room_def demo_room_def new_room_def
      getRoom_def api_question_def Let_def elapsed_def QUESTION_TIME_def REVEAL_TIME_def)

text \<open>
  C4, amended.  For a room that is playing, and still playing once the evaluation has
  resolved the phase, whose question index then points at an element of the question list
  that is not \<open>null\<close>: the response is a question view.  It has the text and the options
  of that question, each exactly when the stored question has it.  Its phase is the
  resolved phase.  During answering the time left is the greater of 0 and 30 minus the
  whole seconds since the question started, and the response has neither a correct index
  nor an explanation.  During revealing the time left is the greater of 0 and 5 minus the
  whole seconds since the reveal started, and the response has the correct index and the
  explanation of the stored question, each exactly when the stored question has it.
\<close>

theorem current_view_fields:
  assumes "getRoom st roomCode = Some room" and "status room = St_playing"
    and "snd (api_question now roomCode st) roomCode = Some room'"
    and "status room' = St_playing"
    and "currentQuestion room' < length (questions room')"
    and "questions room' ! currentQuestion room' \<noteq> JNull"
  shows "\<exists>v. fst (api_question now roomCode st) = Inr (Question_view v)
     \<and> v_question v = field (questions room' ! currentQuestion room') ''question''
     \<and> v_options v = field (questions room' ! currentQuestion room') ''options''
     \<and> v_phase v = (if phase room' = Ph_answering then Ph_answering else Ph_revealing)
     \<and> (v_phase v = Ph_answering \<longrightarrow>
          v_timeLeft v = max 0 (30 - (now - questionStartTime room') div 1000)
          \<and> v_correctAnswer v = None \<and> v_explanation v = None)
     \<and> (v_phase v = Ph_revealing \<longrightarrow>
          v_timeLeft v = max 0 (5 - (now - revealStartTime room') div 1000)
          \<and> v_correctAnswer v = field (questions room' ! currentQuestion room') ''correct''
          \<and> v_explanation v = field (questions room' ! currentQuestion room') ''explanation'')"
proof -
  have cq: "current_question room' = Inr (questions room' ! currentQuestion room')"
    using assms(5,6) by (simp add: current_question_Inr)
  have view: "\<exists>v. question_view now room' = Inr (Question_view v)
     \<and> v_question v = field (questions room' ! currentQuestion room') ''question''
     \<and> v_options v = field (questions room' ! currentQuestion room') ''options''
     \<and> v_phase v = (if phase room' = Ph_answering then Ph_answering else Ph_revealing)
     \<and> (v_phase v = Ph_answering \<longrightarrow>
          v_timeLeft v = max 0 (30 - (now - questionStartTime room') div 1000)
          \<and> v_correctAnswer v = None \<and> v_explanation v = None)
     \<and> (v_phase v = Ph_revealing \<longrightarrow>
          v_timeLeft v = max 0 (5 - (now - revealStartTime room') div 1000)
          \<and> v_correctAnswer v = field (questions room' ! currentQuestion room') ''correct''
          \<and> v_explanation v = field (questions room' ! currentQuestion room') ''explanation'')"
    by (simp add: question_view_def cq QUESTION_TIME_def REVEAL_TIME_def elapsed_def)
  have stored: "getRoom (snd (api_question now roomCode st)) roomCode = Some room'"
    using assms(3) by (simp add: getRoom_def)
  have "fst (api_question now roomCode st) = question_view now room'"
  proof (cases "phase room")
    case Ph_waiting
    then show ?thesis
      using assms(1,2) stored by (simp add: api_question_waiting)
  next
    case Ph_answering
    then show ?thesis
      using assms(1,2) stored
      by (cases "QUESTION_TIME \<le> elapsed now (questionStartTime room)")
        (auto simp: api_question_answering_closed api_question_answering_open)
  next
    case Ph_revealing
    show ?thesis
    proof (cases "REVEAL_TIME \<le> elapsed now (revealStartTime room)")
      case True
      then show ?thesis
        using assms(1,2,4) stored Ph_revealing
        by (auto simp: api_question_revealing_closed split: if_splits)
    next
      case False
      then show ?thesis
        using assms(1,2) stored Ph_revealing by (simp add: api_question_revealing_open)
    qed
  qed
  with view show ?thesis
    by simp
qed

text \<open>The demo room read 12 seconds after its first question started: 18 seconds are left
  and the answer is withheld.  The room that shows the answer of its last question, read 2
  seconds after the reveal began: 3 seconds are left and the answer is shown.\<close>

theorem current_view_fields_witness:
  "getRoom demo_store ''ROOM01'' = Some demo_room \<and> status demo_room = St_playing
   \<and> snd (api_question 13000 ''ROOM01'' demo_store) ''ROOM01'' = Some demo_room
   \<and> currentQuestion demo_room < length (questions demo_room)
   \<and> questions demo_room ! currentQuestion demo_room \<noteq> JNull
   \<and> (\<exists>v. fst (api_question 13000 ''ROOM01'' demo_store) = Inr (Question_view v)
         \<and> v_question v = Some (JStr ''Which service stores objects?'')
         \<and> v_phase v = Ph_answering \<and> v_timeLeft v = 18
         \<and> v_correctAnswer v = None \<and> v_explanation v = None)
   \<and> getRoom last_reveal_store ''ROOM01'' = Some last_reveal_room
   \<and> status last_reveal_room = St_playing
   \<and> snd (api_question 42000 ''ROOM01'' last_reveal_store) ''ROOM01'' = Some last_reveal_room
   \<and> currentQuestion last_reveal_room < length (questions last_reveal_room)
   \<and> questions last_reveal_room ! currentQuestion last_reveal_room \<noteq> JNull
   \<and> (\<exists>v. fst (api_question 42000 ''ROOM01'' last_reveal_store) = Inr (Question_view v)
         \<and> v_question v = Some (JStr ''Which service runs virtual machines?'')
         \<and> v_phase v = Ph_revealing \<and> v_timeLeft v = 3
         \<and> v_correctAnswer v = Some (JNum 2)
         \<and> v_explanation v = Some (JStr ''EC2 runs instances.''))"
proof -
  have g: "getRoom demo_store ''ROOM01'' = Some demo_room"
    by (simp add: getRoom_def demo_store_def)
  have p: "status demo_room = St_playing"
    by (simp add: demo_room_def)
  have s: "snd (api_question 13000 ''ROOM01'' demo_store) ''ROOM01'' = Some demo_room"
    by (simp add: api_question_def getRoom_def demo_store_def demo_room_def Let_def elapsed_def
        QUESTION_TIME_def)
  have q: "currentQuestion demo_room < length (questions demo_room)"
    "questions demo_room ! currentQuestion demo_room \<noteq> JNull"
    by (simp_all add: demo_room_def new_room_def demo_question_def)
  have e: "questions demo_room ! currentQuestion demo_room = demo_question"
    "phase demo_room = Ph_answering" "questionStartTime demo_room = 1000"
    by (simp_all add: demo_room_def new_room_def)
  have g2: "getRoom last_reveal_store ''ROOM01'' = Some last_reveal_room"
    by (simp add: getRoom_def last_reveal_store_def)
  have p2: "status last_reveal_room = St_playing"
    by (simp add: last_reveal_room_def demo_room_def)
  have s2: "snd (api_question 42000 ''ROOM01'' last_reveal_store) ''ROOM01'' = Some last_reveal_room"
    by (simp add: api_question_def getRoom_def last_reveal_store_def last_reveal_room_def
        demo_room_def Let_def elapsed_def REVEAL_TIME_def)
  have q2: "currentQuestion last_reveal_room < length (questions last_reveal_room)"
    "questions last_reveal_room ! currentQuestion last_reveal_room \<noteq> JNull"
    by (simp_all add: last_reveal_room_def demo_room_def new_room_def demo_question2_def)
  have e2: "questions last_reveal_room ! currentQuestion last_reveal_room = demo_question2"
    "phase last_reveal_room = Ph_revealing" "revealStartTime last_reveal_room = 40000"
    by (simp_all add: last_reveal_room_def demo_room_def new_room_def)
  from current_view_fields [OF g p s p q] current_view_fields [OF g2 p2 s2 p2 q2]
  show ?thesis
    using g p s q e g2 p2 s2 q2 e2 by (auto simp: demo_question_def demo_question2_def)
qed

text \<open>A stored question without the property \<open>correct\<close>: the revealing view has no correct
  index.\<close>

lemma revealing_view_without_correct:
  "question_view 42000
     (last_reveal_room\<lparr>questions := [demo_question, JObj [(''question'', JStr ''Why?'')]]\<rparr>)
   = Inr (Question_view
       \<lparr> questionNum = 2, totalQuestions = 2,
         v_question = Some (JStr ''Why?''), v_options = None,
         v_correctAnswer = None, v_explanation = None,
         v_timeLeft = 3, v_timeLimit = None,
         v_phase = Ph_revealing, v_status = St_playing, v_scores = [] \<rparr>)"
  by (simp add: question_view_def current_question_def last_reveal_room_def demo_room_def
      new_room_def elapsed_def REVEAL_TIME_def)

section \<open>Results\<close>

lemma sortedScores_first:
  assumes "sortedScores sc = e # es"
  shows "e \<in> set sc \<and> (\<forall>e' \<in> set sc. snd e' \<le> snd e)"
proof -
  have "set (e # es) = set sc"
    using assms [symmetric] by (simp add: sortedScores_def)
  moreover have "sorted (map (\<lambda>x. - snd x) (e # es))"
    using assms [symmetric] by (simp add: sortedScores_def del: sorted_wrt.simps)
  ultimately show ?thesis
    by auto
qed

lemma sortedScores_empty: "(sortedScores sc = []) = (sc = [])"
  using length_sort [of "\<lambda>x. - snd x" sc] by (auto simp: sortedScores_def simp del: length_sort)

text \<open>For a room that exists and a name that is not an inherited one, the results
  handler succeeds: it returns the scores of the room; as winner an entry of the scores
  that no other entry exceeds (the placeholder \<open>No winner\<close> with 0 when nobody has a
  score); and the answer history stored for the name, the empty list when none is
  stored.\<close>

lemma results_for_plain_name:
  assumes "getRoom st roomCode = Some room" and "playerName \<notin> set inherited_names"
  shows "\<exists>res. api_results roomCode playerName st = Inr res
     \<and> r_scores res = scores room
     \<and> r_status res = status room
     \<and> (scores room \<noteq> [] \<longrightarrow>
          winner res \<in> set (scores room) \<and> (\<forall>e \<in> set (scores room). snd e \<le> snd (winner res)))
     \<and> (scores room = [] \<longrightarrow> winner res = (''No winner'', 0))
     \<and> myAnswers res =
          Answers (case obj_own (playerAnswers room) playerName of None \<Rightarrow> [] | Some h \<Rightarrow> h)"
proof -
  have answers: "(case obj_get (playerAnswers room) playerName of
            Undefined \<Rightarrow> Answers []
          | Own h \<Rightarrow> Answers h
          | Inherited \<Rightarrow> if playerName = ''__proto__'' then Prototype_object else No_answers)
       = Answers (case obj_own (playerAnswers room) playerName of None \<Rightarrow> [] | Some h \<Rightarrow> h)"
    using assms(2) by (auto simp: obj_get_def inherited_names_def split: option.splits)
  show ?thesis
  proof (cases "sortedScores (scores room)")
    case Nil
    then have "scores room = []"
      by (simp add: sortedScores_empty)
    then show ?thesis
      using assms(1) Nil answers by (simp add: api_results_def)
  next
    case (Cons e es)
    then have "scores room \<noteq> []"
      using sortedScores_empty [of "scores room"] by auto
    moreover from sortedScores_first [OF Cons]
    have "e \<in> set (scores room)" "\<forall>e' \<in> set (scores room). snd e' \<le> snd e"
      by simp_all
    ultimately show ?thesis
      using assms(1) Cons answers by (simp add: api_results_def)
  qed
qed

text \<open>
  C9.  The claim is that get-results returns, for every player name, the answer history of
  that name, the empty sequence when the player has no recorded answers.  Nobody called
  \<open>constructor\<close> has joined Ann's room or answered in it, and no history is stored under
  that name; for the name \<open>Nobody\<close> the handler answers with the empty history, but for
  \<open>constructor\<close> the lookup of the history finds the function every object inherits, and
  the response has no \<open>myAnswers\<close> at all.
\<close>

theorem results_for_inherited_name:
  "obj_own (playerAnswers joined_room) ''constructor'' = None
   \<and> obj_own (playerAnswers joined_room) ''Nobody'' = None
   \<and> api_results ''ROOM01'' ''Nobody'' joined_store
        = Inr \<lparr> r_scores = [(''Ann'', 1450)], winner = (''Ann'', 1450),
                myAnswers = Answers [], r_status = St_playing \<rparr>
   \<and> api_results ''ROOM01'' ''constructor'' joined_store
        = Inr \<lparr> r_scores = [(''Ann'', 1450)], winner = (''Ann'', 1450),
                myAnswers = No_answers, r_status = St_playing \<rparr>"
  by (simp add: api_results_def getRoom_def joined_store_def joined_room_def demo_room_def
      new_room_def obj_get_def obj_own_def inherited_names_def sortedScores_def)

section \<open>Joining again\<close>

lemma find_name_None: "(find (\<lambda>q. name q = p) ps = None) = (p \<notin> name ` set ps)"
  by (auto simp: find_None_iff)

lemma obj_get_proto [simp]: "obj_get ob ''__proto__'' = Inherited"
  by (simp add: obj_get_def inherited_names_def)

lemma registered_iff:
  "registered room =
     (\<forall>q \<in> set (players room). obj_get (scores room) (name q) \<noteq> Undefined
                               \<and> obj_get (playerAnswers room) (name q) \<noteq> Undefined)"
  by (simp add: registered_def list_all_iff)

lemma registered_same_fields:
  assumes "players r' = players r" and "scores r' = scores r" and "playerAnswers r' = playerAnswers r"
  shows "registered r' = registered r"
  using assms by (simp add: registered_def)

lemma registered_new_room: "registered (new_room roomName isPublicArg now)"
  by (simp add: registered_def new_room_def)

lemma registered_register_player:
  assumes "registered room"
  shows "registered (register_player now p room)"
  using assms
  by (auto simp: registered_iff register_player_players register_player_scores
      register_player_history)

lemma fold_reset_player_players [simp]: "players (fold reset_player ps room) = players room"
  by (induction ps arbitrary: room) (simp_all add: reset_player_def)

lemma fold_reset_player_scores:
  "obj_get (scores (fold reset_player ps room)) n =
     (if n \<in> name ` set ps \<and> n \<noteq> ''__proto__'' then Own 0 else obj_get (scores room) n)"
  by (induction ps arbitrary: room) (auto simp: reset_player_def obj_get_obj_set)

lemma fold_reset_player_history:
  "obj_get (playerAnswers (fold reset_player ps room)) n =
     (if n \<in> name ` set ps \<and> n \<noteq> ''__proto__'' then Own [] else obj_get (playerAnswers room) n)"
  by (induction ps arbitrary: room) (auto simp: reset_player_def obj_get_obj_set)

text \<open>Each handler writes a room that satisfies the invariant, when the room it read
  does.\<close>

lemma registered_join:
  assumes "getRoom st roomCode = Some room" and "registered room"
    and "getRoom (snd (api_join_room now roomCode p st)) roomCode = Some room'"
  shows "registered room'"
proof -
  have "room' = (register_player now p room)\<lparr>lastUpdate := now\<rparr>"
    using assms(1,3) by (simp add: api_join_room_def Let_def)
  then have "registered room' = registered (register_player now p room)"
    by (simp add: registered_def)
  then show ?thesis
    using assms(2) by (simp add: registered_register_player)
qed

lemma registered_start_game:
  assumes "getRoom st roomCode = Some room" and "registered room"
    and "getRoom (snd (api_start_game now roomCode st)) roomCode = Some room'"
  shows "registered room'"
proof (cases "length (questions room) = 0")
  case True
  then have "room' = room"
    using assms(1,3) by (simp add: api_start_game_def)
  then show ?thesis
    using assms(2) by simp
next
  case False
  then have "room' = (fold reset_player (players room)
       (room\<lparr>status := St_playing, phase := Ph_answering, currentQuestion := 0,
             questionStartTime := now, currentQuestionAnswers := Some []\<rparr>))\<lparr>lastUpdate := now\<rparr>"
    using assms(1,3) by (simp add: api_start_game_def Let_def)
  then show ?thesis
    by (auto simp: registered_iff fold_reset_player_scores fold_reset_player_history)
qed

lemma registered_question:
  assumes "getRoom st roomCode = Some room" and "registered room"
    and "getRoom (snd (api_question now roomCode st)) roomCode = Some room'"
  shows "registered room'"
proof -
  have "players room' = players room \<and> scores room' = scores room
      \<and> playerAnswers room' = playerAnswers room"
    using assms(1,3)
    by (auto simp: api_question_def Let_def split: if_splits)
  then show ?thesis
    using assms(2) by (simp add: registered_def)
qed

lemma registered_submit_answer:
  assumes "getRoom st roomCode = Some room" and "registered room"
    and "getRoom (snd (api_submit_answer now roomCode p a st)) roomCode = Some room'"
  shows "registered room'"
proof (cases "\<exists>w. snd (submit_answer now p a (Some room)) = Some w")
  case False
  then have "snd (api_submit_answer now roomCode p a st) = st"
    using assms(1) by (auto simp: api_submit_answer_def split: prod.splits option.splits)
  then show ?thesis
    using assms by simp
next
  case True
  then obtain w resp where w: "submit_answer now p a (Some room) = (resp, Some w)"
    by (metis prod.collapse)
  then have "\<exists>a' sc. resp = Inr (Submitted a' sc)"
    by (auto simp: submit_answer_def Let_def split: if_splits sum.splits lookup.splits)
  then obtain a' sc where "submit_answer now p a (Some room) = (Inr (Submitted a' sc), Some w)"
    using w by blast
  from submit_answer_Submitted_only [OF this]
  obtain q h where guards: "status room = St_playing" "phase room = Ph_answering"
    "\<not> truthy_num (obj_get (case currentQuestionAnswers room of None \<Rightarrow> [] | Some x \<Rightarrow> x) p)"
    "current_question room = Inr q"
    "obj_get (playerAnswers (register_player now p room)) p = Own h"
    "field q ''correct'' = Some (JNum a) \<longrightarrow>
       obj_get (scores (register_player now p room)) p \<noteq> Inherited"
    by blast
  from submit_answer_written [OF guards]
  obtain r where r: "submit_answer now p a (Some room) = (Inr (Submitted a (scores r)), Some r)"
    and s: "\<forall>p'. obj_get (scores (register_player now p room)) p' \<noteq> Undefined \<longrightarrow>
               obj_get (scores r) p' \<noteq> Undefined"
    and h: "\<forall>p'. obj_get (playerAnswers (register_player now p room)) p' \<noteq> Undefined \<longrightarrow>
               obj_get (playerAnswers r) p' \<noteq> Undefined"
    and pl: "players r = players (register_player now p room)"
    by blast
  have "room' = r"
    using r assms(1,3) by (simp add: api_submit_answer_def)
  moreover have "registered (register_player now p room)"
    using assms(2) by (rule registered_register_player)
  then have "registered r"
    using s h pl by (simp add: registered_iff)
  ultimately show ?thesis
    by simp
qed

lemma registered_upload_content:
  assumes "getRoom st roomCode = Some room" and "registered room"
    and "getRoom (fst (snd (api_upload_content now roomCode req gen shuffle1 shuffle2 newQuizId st ar)))
           roomCode = Some room'"
  shows "registered room'"
proof -
  have "players room' = players room \<and> scores room' = scores room
      \<and> playerAnswers room' = playerAnswers room"
    using assms(1,3)
    by (auto simp: api_upload_content_def Let_def split: if_splits option.splits gen_output.splits)
  then show ?thesis
    using assms(2) by (simp add: registered_def)
qed

lemma registered_load_quiz:
  assumes "getRoom st roomCode = Some room" and "registered room"
    and "getRoom (snd (api_load_quiz now roomCode qid shuffle st ar)) roomCode = Some room'"
  shows "registered room'"
proof -
  have "players room' = players room \<and> scores room' = scores room
      \<and> playerAnswers room' = playerAnswers room"
    using assms(1,3)
    by (auto simp: api_load_quiz_def Let_def split: option.splits)
  then show ?thesis
    using assms(2) by (simp add: registered_def)
qed

text \<open>
  C8.  Joining is idempotent for a player of the room.  For a room that satisfies the
  invariant of the player list and a name that is in the list, join-room succeeds and
  answers with the player list, the scores and the status as they were; the room it
  writes differs from the room it read in \<open>lastUpdate\<close> only, so the player list, the
  scores (the score of the player who joins again among them) and the answer histories
  are unchanged.
\<close>

theorem rejoin_changes_nothing:
  assumes "getRoom st roomCode = Some room" and "registered room"
    and "playerName \<in> name ` set (players room)"
  shows "api_join_room now roomCode playerName st
           = (Inr (Joined (players room) (scores room) (status room)),
              setRoom st roomCode (room\<lparr>lastUpdate := now\<rparr>))
     \<and> snd (api_join_room now roomCode playerName st) roomCode = Some (room\<lparr>lastUpdate := now\<rparr>)
     \<and> players (room\<lparr>lastUpdate := now\<rparr>) = players room
     \<and> scores (room\<lparr>lastUpdate := now\<rparr>) = scores room
     \<and> playerAnswers (room\<lparr>lastUpdate := now\<rparr>) = playerAnswers room
     \<and> obj_get (scores room) playerName \<noteq> Undefined"
proof -
  have known: "find (\<lambda>q. name q = playerName) (players room) \<noteq> None"
    using assms(3) by (simp add: find_name_None)
  have defined: "obj_get (scores room) playerName \<noteq> Undefined"
    "obj_get (playerAnswers room) playerName \<noteq> Undefined"
    using assms(2,3) by (auto simp: registered_iff)
  have "register_player now playerName room = room"
    using known defined by (rule register_player_known)
  then show ?thesis
    using assms(1) defined by (simp add: api_join_room_def Let_def setRoom_def)
qed

theorem rejoin_changes_nothing_witness:
  "getRoom joined_store ''ROOM01'' = Some joined_room \<and> registered joined_room
   \<and> ''Ann'' \<in> name ` set (players joined_room)
   \<and> api_join_room 7000 ''ROOM01'' ''Ann'' joined_store
        = (Inr (Joined [\<lparr>name = ''Ann'', joinedAt = 500\<rparr>] [(''Ann'', 1450)] St_playing),
           setRoom joined_store ''ROOM01'' (joined_room\<lparr>lastUpdate := 7000\<rparr>))
   \<and> snd (api_join_room 7000 ''ROOM01'' ''Ann'' joined_store) ''ROOM01''
        = Some (joined_room\<lparr>lastUpdate := 7000\<rparr>)"
proof -
  have g: "getRoom joined_store ''ROOM01'' = Some joined_room"
    by (simp add: getRoom_def joined_store_def)
  have r: "registered joined_room"
    by (simp add: registered_def joined_room_def obj_get_def obj_own_def)
  have m: "''Ann'' \<in> name ` set (players joined_room)"
    by (simp add: joined_room_def)
  have f: "players joined_room = [\<lparr>name = ''Ann'', joinedAt = 500\<rparr>]"
    "scores joined_room = [(''Ann'', 1450)]" "status joined_room = St_playing"
    by (simp_all add: joined_room_def demo_room_def)
  from rejoin_changes_nothing [OF g r m, of 7000] show ?thesis
    using g r m f by (simp add: setRoom_def)
qed

text \<open>The same for two calls in a row on any room: the first call makes the name a
  registered player, the second finds nothing to do.\<close>

lemma join_twice:
  assumes "getRoom st roomCode = Some room"
  shows "\<exists>room1. getRoom (snd (api_join_room t1 roomCode p st)) roomCode = Some room1
     \<and> api_join_room t2 roomCode p (snd (api_join_room t1 roomCode p st))
         = (Inr (Joined (players room1) (scores room1) (status room1)),
            setRoom (snd (api_join_room t1 roomCode p st)) roomCode (room1\<lparr>lastUpdate := t2\<rparr>))"
proof -
  let ?r1 = "(register_player t1 p room)\<lparr>lastUpdate := t1\<rparr>"
  have first: "snd (api_join_room t1 roomCode p st) = setRoom st roomCode ?r1"
    using assms by (simp add: api_join_room_def Let_def)
  have "find (\<lambda>q. name q = p) (players (register_player t1 p room)) \<noteq> None"
    by (auto simp: register_player_players find_name_None)
  moreover have "obj_get (scores (register_player t1 p room)) p \<noteq> Undefined"
    "obj_get (playerAnswers (register_player t1 p room)) p \<noteq> Undefined"
    by (simp_all add: register_player_scores register_player_history)
  ultimately have "register_player t2 p ?r1 = ?r1"
    by (intro register_player_known) simp_all
  then have "api_join_room t2 roomCode p (setRoom st roomCode ?r1)
      = (Inr (Joined (players ?r1) (scores ?r1) (status ?r1)),
         setRoom (setRoom st roomCode ?r1) roomCode (?r1\<lparr>lastUpdate := t2\<rparr>))"
    by (simp add: api_join_room_def Let_def)
  then show ?thesis
    unfolding first by simp
qed

section \<open>The branches no stored room reaches\<close>

text \<open>The object of the current choices never holds a choice under an inherited name:
  a submission under such a name finds the inherited function, which is truthy, and is
  answered as a duplicate before anything is written. So the two branches of
  \<open>submit_answer\<close> that need an inherited lookup after the duplicate guard are not taken
  for a room that the handlers have written.\<close>

text \<open>Loading questions leaves the players, the scores, the histories and the current
  choices as they are.\<close>

lemma upload_content_keeps:
  assumes "getRoom st roomCode = Some room"
    and "getRoom (fst (snd (api_upload_content now roomCode req gen shuffle1 shuffle2 newQuizId st ar)))
           roomCode = Some room'"
  shows "players room' = players room \<and> scores room' = scores room
      \<and> playerAnswers room' = playerAnswers room
      \<and> currentQuestionAnswers room' = currentQuestionAnswers room"
  using assms
  by (auto simp: api_upload_content_def Let_def split: if_splits option.splits gen_output.splits)

lemma load_quiz_keeps:
  assumes "getRoom st roomCode = Some room"
    and "getRoom (snd (api_load_quiz now roomCode qid shuffle st ar)) roomCode = Some room'"
  shows "players room' = players room \<and> scores room' = scores room
      \<and> playerAnswers room' = playerAnswers room
      \<and> currentQuestionAnswers room' = currentQuestionAnswers room"
  using assms
  by (auto simp: api_load_quiz_def Let_def split: option.splits)

lemma plain_answers_iff:
  "plain_answers room =
     (\<forall>k \<in> set inherited_names.
        obj_own (case currentQuestionAnswers room of None \<Rightarrow> [] | Some x \<Rightarrow> x) k = None)"
  by (simp add: plain_answers_def list_all_iff)

text \<open>While no choice is stored under an inherited name, a submission under such a name
  is answered as a duplicate, so it never reaches the history or the score.\<close>

lemma inherited_name_is_duplicate:
  assumes "plain_answers room" and "p \<in> set inherited_names"
  shows "truthy_num (obj_get (case currentQuestionAnswers room of None \<Rightarrow> [] | Some x \<Rightarrow> x) p)"
  using assms by (simp add: plain_answers_iff obj_get_def truthy_num_def)

lemma current_question_Inl: "current_question room = Inl e \<Longrightarrow> e = TypeError"
  by (auto simp: current_question_def split: if_splits)

lemma submit_answer_never_StringScore:
  assumes "plain_answers room"
  shows "fst (submit_answer now p a (Some room)) \<noteq> Inl StringScore"
proof
  assume res: "fst (submit_answer now p a (Some room)) = Inl StringScore"
  have guard: "\<not> truthy_num (obj_get (case currentQuestionAnswers room of None \<Rightarrow> [] | Some x \<Rightarrow> x) p)"
    using res
    by (auto simp: submit_answer_def Let_def split: if_splits sum.splits lookup.splits)
  have "obj_get (scores (register_player now p room)) p = Inherited"
    using res
    by (auto simp: submit_answer_def Let_def dest: current_question_Inl
        split: if_splits sum.splits lookup.splits)
  then have "p \<in> set inherited_names"
    by (rule obj_get_Inherited_name)
  with assms guard show False
    using inherited_name_is_duplicate by blast
qed

lemma submit_answer_TypeError_only:
  assumes "plain_answers room"
    and "fst (submit_answer now p a (Some room)) = Inl TypeError"
  shows "current_question room = Inl TypeError"
proof (rule ccontr)
  assume other: "current_question room \<noteq> Inl TypeError"
  have guard: "\<not> truthy_num (obj_get (case currentQuestionAnswers room of None \<Rightarrow> [] | Some x \<Rightarrow> x) p)"
    using assms(2)
    by (auto simp: submit_answer_def Let_def split: if_splits sum.splits lookup.splits)
  then have plain: "p \<notin> set inherited_names"
    using assms(1) inherited_name_is_duplicate by blast
  have cq: "\<exists>q. current_question room = Inr q"
    using other by (auto simp: current_question_def split: if_splits)
  have "\<exists>h. obj_get (playerAnswers (register_player now p room)) p = Own h"
    using plain obj_get_Inherited_name [of "playerAnswers room" p]
    by (cases "obj_get (playerAnswers room) p") (simp_all add: register_player_history)
  moreover have "obj_get (scores (register_player now p room)) p \<noteq> Inherited"
    using plain obj_get_Inherited_name [of "scores room" p]
    by (auto simp: register_player_scores)
  ultimately show False
    using assms(2) guard cq
    by (auto simp: submit_answer_def Let_def split: if_splits sum.splits lookup.splits)
qed

text \<open>A new room has no stored choices, and each handler writes a room without a choice
  under an inherited name when the room it read has none.\<close>

lemma plain_answers_new_room: "plain_answers (new_room roomName isPublicArg now)"
  by (simp add: plain_answers_def new_room_def obj_own_def list_all_iff)

lemma plain_answers_same_field:
  assumes "currentQuestionAnswers r' = currentQuestionAnswers r"
  shows "plain_answers r' = plain_answers r"
  using assms by (simp add: plain_answers_def)

lemma plain_answers_cleared:
  assumes "currentQuestionAnswers r' = Some []"
  shows "plain_answers r'"
  using assms by (simp add: plain_answers_def obj_own_def list_all_iff)

lemma plain_answers_join:
  assumes "getRoom st roomCode = Some room" and "plain_answers room"
    and "getRoom (snd (api_join_room now roomCode p st)) roomCode = Some room'"
  shows "plain_answers room'"
proof -
  have "room' = (register_player now p room)\<lparr>lastUpdate := now\<rparr>"
    using assms(1,3) by (simp add: api_join_room_def Let_def)
  then have "currentQuestionAnswers room' = currentQuestionAnswers room"
    by simp
  then show ?thesis
    using assms(2) by (simp add: plain_answers_def)
qed

lemma fold_reset_player_answers [simp]:
  "currentQuestionAnswers (fold reset_player ps room) = currentQuestionAnswers room"
  by (induction ps arbitrary: room) (simp_all add: reset_player_def)

lemma plain_answers_start_game:
  assumes "getRoom st roomCode = Some room" and "plain_answers room"
    and "getRoom (snd (api_start_game now roomCode st)) roomCode = Some room'"
  shows "plain_answers room'"
proof (cases "length (questions room) = 0")
  case True
  then have "room' = room"
    using assms(1,3) by (simp add: api_start_game_def)
  then show ?thesis
    using assms(2) by simp
next
  case False
  then have "currentQuestionAnswers room' = Some []"
    using assms(1,3) by (auto simp: api_start_game_def Let_def)
  then show ?thesis
    by (rule plain_answers_cleared)
qed

lemma api_question_not_playing:
  assumes "getRoom st roomCode = Some room" and "status room \<noteq> St_playing"
  shows "snd (api_question now roomCode st) = st"
  using assms by (simp add: api_question_def)

lemma plain_answers_question:
  assumes "getRoom st roomCode = Some room" and "plain_answers room"
    and "getRoom (snd (api_question now roomCode st)) roomCode = Some room'"
  shows "plain_answers room'"
proof (cases "status room = St_playing")
  case False
  then have "room' = room"
    using assms(1,3) by (simp add: api_question_not_playing)
  then show ?thesis
    using assms(2) by simp
next
  case True
  show ?thesis
  proof (cases "phase room")
    case Ph_waiting
    then have "room' = room"
      using assms(1,3) True by (simp add: api_question_waiting)
    then show ?thesis
      using assms(2) by simp
  next
    case Ph_answering
    show ?thesis
    proof (cases "QUESTION_TIME \<le> elapsed now (questionStartTime room)")
      case closed: True
      then have "room' = room\<lparr>phase := Ph_revealing, revealStartTime := now\<rparr>"
        using assms(1,3) True Ph_answering by (simp add: api_question_answering_closed)
      then show ?thesis
        using assms(2) by (simp add: plain_answers_def)
    next
      case False
      then have "room' = room"
        using assms(1,3) True Ph_answering by (simp add: api_question_answering_open)
      then show ?thesis
        using assms(2) by simp
    qed
  next
    case Ph_revealing
    show ?thesis
    proof (cases "REVEAL_TIME \<le> elapsed now (revealStartTime room)")
      case closed: True
      then have "currentQuestionAnswers room' = Some []"
        using assms(1,3) True Ph_revealing
        by (auto simp: api_question_revealing_closed split: if_splits)
      then show ?thesis
        by (rule plain_answers_cleared)
    next
      case False
      then have "room' = room"
        using assms(1,3) True Ph_revealing by (simp add: api_question_revealing_open)
      then show ?thesis
        using assms(2) by simp
    qed
  qed
qed

lemma plain_answers_submit_answer:
  assumes "getRoom st roomCode = Some room" and "plain_answers room"
    and "getRoom (snd (api_submit_answer now roomCode p a st)) roomCode = Some room'"
  shows "plain_answers room'"
proof (cases "\<exists>w. snd (submit_answer now p a (Some room)) = Some w")
  case False
  then have "snd (api_submit_answer now roomCode p a st) = st"
    using assms(1) by (auto simp: api_submit_answer_def split: prod.splits option.splits)
  then show ?thesis
    using assms by simp
next
  case True
  then obtain w resp where w: "submit_answer now p a (Some room) = (resp, Some w)"
    by (metis prod.collapse)
  then have "\<exists>a' sc. resp = Inr (Submitted a' sc)"
    by (auto simp: submit_answer_def Let_def split: if_splits sum.splits lookup.splits)
  then obtain a' sc where "submit_answer now p a (Some room) = (Inr (Submitted a' sc), Some w)"
    using w by blast
  from submit_answer_Submitted_only [OF this]
  obtain q h where guards: "status room = St_playing" "phase room = Ph_answering"
    "\<not> truthy_num (obj_get (case currentQuestionAnswers room of None \<Rightarrow> [] | Some x \<Rightarrow> x) p)"
    "current_question room = Inr q"
    "obj_get (playerAnswers (register_player now p room)) p = Own h"
    "field q ''correct'' = Some (JNum a) \<longrightarrow>
       obj_get (scores (register_player now p room)) p \<noteq> Inherited"
    by blast
  from submit_answer_written [OF guards]
  obtain r where r: "submit_answer now p a (Some room) = (Inr (Submitted a (scores r)), Some r)"
    and c: "currentQuestionAnswers r =
           Some (obj_set (case currentQuestionAnswers room of None \<Rightarrow> [] | Some x \<Rightarrow> x) p a)"
    by blast
  have "room' = r"
    using r assms(1,3) by (simp add: api_submit_answer_def)
  moreover have plain: "p \<notin> set inherited_names"
    using assms(2) guards(3) inherited_name_is_duplicate by blast
  have "plain_answers r"
    unfolding plain_answers_iff
  proof
    fix k
    assume k: "k \<in> set inherited_names"
    with plain have "k \<noteq> p"
      by blast
    then show "obj_own (case currentQuestionAnswers r of None \<Rightarrow> [] | Some x \<Rightarrow> x) k = None"
      using k assms(2) by (simp add: c obj_own_obj_set plain_answers_iff)
  qed
  ultimately show ?thesis
    by simp
qed

lemma plain_answers_upload_content:
  assumes "getRoom st roomCode = Some room" and "plain_answers room"
    and "getRoom (fst (snd (api_upload_content now roomCode req gen shuffle1 shuffle2 newQuizId st ar)))
           roomCode = Some room'"
  shows "plain_answers room'"
  using upload_content_keeps [OF assms(1,3)] assms(2) by (simp add: plain_answers_def)

lemma plain_answers_load_quiz:
  assumes "getRoom st roomCode = Some room" and "plain_answers room"
    and "getRoom (snd (api_load_quiz now roomCode qid shuffle st ar)) roomCode = Some room'"
  shows "plain_answers room'"
  using load_quiz_keeps [OF assms(1,3)] assms(2) by (simp add: plain_answers_def)

section \<open>Loading questions\<close>


text \<open>An output whose \<open>questions\<close> is the string \<open>ab\<close> is spread into its characters, and
  the two one-character strings are stored as the questions of the room.\<close>

lemma string_output_is_spread:
  "fst (api_upload_content 5000 ''LOBBY1'' demo_upload
          (Parsed (JObj [(''questions'', JStr ''ab'')]))
          id id ''quiz0001'' lobby_store Map.empty)
       = Inr \<lparr> numQuestions = 2, quizId = ''quiz0001'', quizName = ''Untitled Quiz'' \<rparr>
   \<and> map_option questions
        (fst (snd (api_upload_content 5000 ''LOBBY1'' demo_upload
                     (Parsed (JObj [(''questions'', JStr ''ab'')]))
                     id id ''quiz0001'' lobby_store Map.empty)) ''LOBBY1'')
       = Some [JStr ''a'', JStr ''b'']"
  by (simp add: lobby_store_def new_room_def api_upload_content_def getRoom_def setRoom_def
      demo_upload_def spread_questions_def truthy_str_def trim_truthy_def is_space_def
      or_default_def Let_def)



section \<open>Overlapping submissions\<close>

text \<open>A schedule that runs one request alone is the handler.\<close>

lemma run_schedule_alone:
  "rs_store (run_schedule roomCode [rq] [Ev_get 0, Ev_set 0] st)
     = snd (api_submit_answer (rq_now rq) roomCode (rq_player rq) (rq_answer rq) st)
   \<and> rs_responses (run_schedule roomCode [rq] [Ev_get 0, Ev_set 0] st)
     = [(0, fst (api_submit_answer (rq_now rq) roomCode (rq_player rq) (rq_answer rq) st))]"
  by (simp add: run_schedule_def run_event_def api_submit_answer_def split: prod.splits option.splits)

text \<open>
  C7.  The claim is that two operations on one room that overlap are each applied as one
  atomic read-modify-write, so that neither write discards the effect of the other.  The
  handlers read the room, compute, and write the whole room back, with nothing between
  the read and the write that would detect another writer.  When the submissions of Ann
  and Bob are both read before either is written, both are answered \<open>submitted\<close>, Ann
  with 1450 points, and the room left in the store has Bob alone: no player, score or
  answer record of Ann.  Run one after the other, the same two requests leave both.
\<close>

theorem overlapping_submits_lose_an_answer:
  "rs_responses (run_schedule ''ROOM01'' demo_requests [Ev_get 0, Ev_get 1, Ev_set 0, Ev_set 1] demo_store)
     = [(0, Inr (Submitted 0 [(''Ann'', 1450)])), (1, Inr (Submitted 1 [(''Bob'', 0)]))]
   \<and> map_option scores
        (rs_store (run_schedule ''ROOM01'' demo_requests [Ev_get 0, Ev_get 1, Ev_set 0, Ev_set 1] demo_store)
           ''ROOM01'')
       = Some [(''Bob'', 0)]
   \<and> map_option (\<lambda>room. map name (players room))
        (rs_store (run_schedule ''ROOM01'' demo_requests [Ev_get 0, Ev_get 1, Ev_set 0, Ev_set 1] demo_store)
           ''ROOM01'')
       = Some [''Bob'']
   \<and> map_option (\<lambda>room. obj_own (playerAnswers room) ''Ann'')
        (rs_store (run_schedule ''ROOM01'' demo_requests [Ev_get 0, Ev_get 1, Ev_set 0, Ev_set 1] demo_store)
           ''ROOM01'')
       = Some None
   \<and> map_option scores
        (rs_store (run_schedule ''ROOM01'' demo_requests [Ev_get 0, Ev_set 0, Ev_get 1, Ev_set 1] demo_store)
           ''ROOM01'')
       = Some [(''Ann'', 1450), (''Bob'', 0)]"
  by code_simp

end
